theory Spec2Isabelle
  imports Complex_Main "HOL-Library.Product_Lexorder"
begin

section \<open>Common conventions\<close>

text \<open>
  The development embeds two modules of the TechCommerce data-quality lab:
  \<^verbatim>\<open>sistema_alertas.py\<close> (class \<^verbatim>\<open>AlertSystem\<close>) and \<^verbatim>\<open>correcao_automatica.py\<close>
  (class \<^verbatim>\<open>DataCleaner\<close>).

  \<^item> Python \<^verbatim>\<open>int\<close> is \<open>int\<close>.  In the alert engine a Python \<^verbatim>\<open>float\<close> is \<open>real\<close>,
    that is, the arithmetic is exact and the rounding of IEEE doubles is not represented,
    and a missing value (\<^verbatim>\<open>None\<close>) is \<open>None\<close> of an option type.  In the cleaner a cell
    of a \<^verbatim>\<open>float64\<close> column is a value of the type \<open>float64\<close> below, with the infinities
    and \<^verbatim>\<open>NaN\<close>, and the rounding of the machine is an argument of the arithmetic.
  \<^item> A point in time is a tuple (year, month, day, time of day) ordered
    lexicographically.  \<^verbatim>\<open>datetime.now()\<close> is an explicit argument \<open>now\<close>.
  \<^item> The texts of the alert engine are \<open>string\<close>.  A text of a data frame is the list of
    its code points; the tables of the Unicode character database, the date parser and
    the sorting algorithm of pandas are arguments of the cleaner, gathered in the record
    \<open>Runtime\<close>.
  \<^item> Logging calls have no effect on the modelled state and are left out.
\<close>

type_synonym timestamp = "int \<times> int \<times> int \<times> int"

definition year :: "timestamp \<Rightarrow> int" where
  "year t = fst t"

datatype py_error = TypeError

section \<open>The alert engine (\<^verbatim>\<open>sistema_alertas.py\<close>)\<close>

datatype Severity = LOW | MEDIUM | HIGH | CRITICAL

text \<open>The \<^verbatim>\<open>summary\<close> dictionary of a quality report, with every key optional.\<close>

record Summary =
  total :: "int option"
  successful :: "int option"
  failed :: "int option"
  success_rate :: "real option"

text \<open>The free-form \<^verbatim>\<open>details\<close> dictionary of an alert: the engine itself passes either
  \<^verbatim>\<open>{'error': ...}\<close> or the summary dictionary; other callers pass any dictionary.\<close>

datatype Details = NoDetails | ErrorDetails string | SummaryDetails Summary
  | OtherDetails "(string \<times> string) list"

record Alert =
  timestamp :: timestamp
  dataset :: string
  issue :: string
  severity :: Severity
  affected_records :: int
  total_records :: int
  percentage :: real
  details :: Details
  status :: string

text \<open>\<^verbatim>\<open>Alert.__init__\<close>; \<^verbatim>\<open>details or {}\<close> turns an absent dictionary into the empty one.\<close>

definition Alert_init ::
  "timestamp \<Rightarrow> string \<Rightarrow> string \<Rightarrow> Severity \<Rightarrow> int \<Rightarrow> int \<Rightarrow> Details option \<Rightarrow> Alert" where
  "Alert_init now ds iss sev affected tot det =
     \<lparr> timestamp = now, dataset = ds, issue = iss, severity = sev,
       affected_records = affected, total_records = tot,
       percentage = (if tot > 0 then real_of_int affected / real_of_int tot * 100 else 0),
       details = (case det of None \<Rightarrow> NoDetails | Some d \<Rightarrow> d),
       status = ''ABERTO'' \<rparr>"

text \<open>Python's \<^verbatim>\<open>round(x, 2)\<close>: to the nearest hundredth, a tie going to the even one.\<close>

definition py_round2 :: "real \<Rightarrow> real" where
  "py_round2 x =
     (let y = x * 100; f = \<lfloor>y\<rfloor>; d = y - of_int f
      in of_int (if d < 1 / 2 then f else if 1 / 2 < d then f + 1
                 else if even f then f else f + 1) / 100)"

text \<open>\<^verbatim>\<open>Alert.to_dict\<close>.  The dictionary is a record of its own; the ISO rendering of the
  timestamp and the \<^verbatim>\<open>value\<close> string of the severity are represented by the timestamp
  and the severity themselves.\<close>

record AlertDict =
  d_timestamp :: timestamp
  d_dataset :: string
  d_issue :: string
  d_severity :: Severity
  d_affected_records :: int
  d_total_records :: int
  d_percentage :: real
  d_status :: string
  d_details :: Details

definition to_dict :: "Alert \<Rightarrow> AlertDict" where
  "to_dict a =
     \<lparr> d_timestamp = timestamp a, d_dataset = dataset a, d_issue = issue a,
       d_severity = severity a, d_affected_records = affected_records a,
       d_total_records = total_records a, d_percentage = py_round2 (percentage a),
       d_status = status a, d_details = details a \<rparr>"

record Escalation =
  alert :: AlertDict
  recipients :: "string list"
  sla_hours :: int
  escalated_at :: timestamp

text \<open>The state of an \<^verbatim>\<open>AlertSystem\<close>: the list \<^verbatim>\<open>self.alerts\<close>, and the lines that
  \<^verbatim>\<open>_save_escalation\<close> has appended to \<^verbatim>\<open>escalations.json\<close>.  (\<^verbatim>\<open>alert_history\<close> and
  \<^verbatim>\<open>thresholds\<close> are never read.)\<close>

record AlertSystem =
  alerts :: "Alert list"
  escalations_file :: "Escalation list"

definition AlertSystem_init :: AlertSystem where
  "AlertSystem_init = \<lparr> alerts = [], escalations_file = [] \<rparr>"

definition determine_severity :: "real \<Rightarrow> Severity option" where
  "determine_severity p =
     (if p < 1 then None
      else if p < 3 then Some LOW
      else if p < 5 then Some MEDIUM
      else if p < 10 then Some HIGH
      else Some CRITICAL)"

definition create_alert ::
  "timestamp \<Rightarrow> string \<Rightarrow> string \<Rightarrow> int \<Rightarrow> int \<Rightarrow> Details option \<Rightarrow> AlertSystem
     \<Rightarrow> Alert option \<times> AlertSystem" where
  "create_alert now ds iss affected tot det s =
     (let p = (if tot > 0 then real_of_int affected / real_of_int tot * 100 else 0)
      in case determine_severity p of
           None \<Rightarrow> (None, s)
         | Some sev \<Rightarrow>
             (let a = Alert_init now ds iss sev affected tot det
              in (Some a, s\<lparr>alerts := alerts s @ [a]\<rparr>)))"

definition save_escalation :: "Escalation \<Rightarrow> AlertSystem \<Rightarrow> AlertSystem" where
  "save_escalation e s = s\<lparr>escalations_file := escalations_file s @ [e]\<rparr>"

definition escalate_alert :: "timestamp \<Rightarrow> Alert \<Rightarrow> AlertSystem \<Rightarrow> Escalation \<times> AlertSystem" where
  "escalate_alert now a s =
     (let (rs, sla) =
            (if severity a = CRITICAL then ([''CDO'', ''Data Owner'', ''Data Steward''], 4)
             else if severity a = HIGH then ([''Data Owner'', ''Data Steward''], 24)
             else if severity a = MEDIUM then ([''Data Steward''], 48)
             else ([''Data Custodian''], 168));
          e = \<lparr> alert = to_dict a, recipients = rs, sla_hours = sla, escalated_at = now \<rparr>
      in (e, save_escalation e s))"

text \<open>Python's \<^verbatim>\<open>str.replace(old, new)\<close>: occurrences are found from the left and do not
  overlap; with an empty \<^verbatim>\<open>old\<close> the new text goes before every character and at the
  end.\<close>

function replace_nonempty :: "string \<Rightarrow> string \<Rightarrow> string \<Rightarrow> string" where
  "replace_nonempty old new [] = []"
| "replace_nonempty old new (c # cs) =
     (if old \<noteq> [] \<and> take (length old) (c # cs) = old
      then new @ replace_nonempty old new (drop (length old) (c # cs))
      else c # replace_nonempty old new cs)"
  by pat_completeness auto
termination
  by (relation "measure (\<lambda>(old, new, s). length s)") auto

definition replace :: "string \<Rightarrow> string \<Rightarrow> string \<Rightarrow> string" where
  "replace old new s =
     (if old = [] then new @ concat (map (\<lambda>c. c # new) s) else replace_nonempty old new s)"

text \<open>One entry of \<^verbatim>\<open>results['checkpoints']\<close>; both keys are read with \<^verbatim>\<open>get\<close>.\<close>

record Checkpoint =
  success :: "bool option"
  error :: "string option"

record Results =
  checkpoints :: "(string \<times> Checkpoint) list option"
  summary :: "Summary option"

text \<open>The loop of \<^verbatim>\<open>analyze_quality_results\<close> over the checkpoints, in the order of the
  dictionary.\<close>

fun analyze_checkpoints ::
  "timestamp \<Rightarrow> (string \<times> Checkpoint) list \<Rightarrow> AlertSystem \<Rightarrow> AlertSystem" where
  "analyze_checkpoints now [] s = s"
| "analyze_checkpoints now ((checkpoint, det) # rest) s =
     (let ds = replace ''_lab'' [] (replace ''checkpoint_'' [] checkpoint)
      in if \<not> (case success det of None \<Rightarrow> False | Some b \<Rightarrow> b)
         then analyze_checkpoints now rest
                (snd (create_alert now ds ''Checkpoint falhou completamente'' 1 1
                        (Some (ErrorDetails
                           (case error det of None \<Rightarrow> ''Unknown'' | Some e \<Rightarrow> e))) s))
         else analyze_checkpoints now rest s)"

definition empty_summary :: Summary where
  "empty_summary = \<lparr> total = None, successful = None, failed = None, success_rate = None \<rparr>"

definition analyze_quality_results :: "timestamp \<Rightarrow> Results \<Rightarrow> AlertSystem \<Rightarrow> AlertSystem" where
  "analyze_quality_results now results s =
     (let s1 = analyze_checkpoints now
                 (case checkpoints results of None \<Rightarrow> [] | Some cs \<Rightarrow> cs) s;
          summ = (case summary results of None \<Rightarrow> empty_summary | Some m \<Rightarrow> m);
          rate = (case success_rate summ of None \<Rightarrow> 100 | Some r \<Rightarrow> r);
          failure_rate = 100 - rate
      in if failure_rate > 0
         then snd (create_alert now ''GERAL'' ''Taxa de falha nos checkpoints''
                     (case failed summ of None \<Rightarrow> 0 | Some n \<Rightarrow> n)
                     (case total summ of None \<Rightarrow> 1 | Some n \<Rightarrow> n)
                     (Some (SummaryDetails summ)) s1)
         else s1)"

text \<open>The escalation loop of \<^verbatim>\<open>process_alerts\<close>: it runs over the alerts in their order
  and escalates the critical and the high ones.\<close>

fun escalate_all :: "timestamp \<Rightarrow> Alert list \<Rightarrow> AlertSystem \<Rightarrow> AlertSystem" where
  "escalate_all now [] s = s"
| "escalate_all now (a # rest) s =
     (if severity a \<in> set [CRITICAL, HIGH]
      then escalate_all now rest (snd (escalate_alert now a s))
      else escalate_all now rest s)"

text \<open>\<^verbatim>\<open>save_alerts\<close> calls \<^verbatim>\<open>json.dumps(alerts_data, f, indent=2, ensure_ascii=False)\<close>.
  Every parameter of \<^verbatim>\<open>json.dumps\<close> after the first is keyword-only, so the call raises
  \<^verbatim>\<open>TypeError\<close> whatever the alerts are; the alert list is not touched.\<close>

definition save_alerts :: "AlertSystem \<Rightarrow> py_error + unit" where
  "save_alerts s = Inl TypeError"

text \<open>\<^verbatim>\<open>process_alerts\<close>: analysis, escalation, the dashboard (printed text only) and
  \<^verbatim>\<open>save_alerts\<close>, whose exception leaves the method before \<^verbatim>\<open>return self.alerts\<close>.\<close>

definition process_alerts ::
  "timestamp \<Rightarrow> Results \<Rightarrow> AlertSystem \<Rightarrow> (py_error + Alert list) \<times> AlertSystem" where
  "process_alerts now results s =
     (let s1 = analyze_quality_results now results s;
          s2 = escalate_all now (alerts s1) s1
      in case save_alerts s2 of
           Inl e \<Rightarrow> (Inl e, s2)
         | Inr u \<Rightarrow> (Inr (alerts s2), s2))"

text \<open>The states an \<^verbatim>\<open>AlertSystem\<close> object can be in: it starts empty and changes only
  through its methods.  \<^verbatim>\<open>escalate_alert\<close> takes any alert, stored or not.\<close>

inductive reachable :: "AlertSystem \<Rightarrow> bool" where
  reach_init: "reachable AlertSystem_init"
| reach_create: "reachable s \<Longrightarrow> reachable (snd (create_alert now ds iss affected tot det s))"
| reach_escalate: "reachable s \<Longrightarrow> reachable (snd (escalate_alert now a s))"
| reach_analyze: "reachable s \<Longrightarrow> reachable (analyze_quality_results now results s)"
| reach_process: "reachable s \<Longrightarrow> reachable (snd (process_alerts now results s))"

text \<open>Auxiliary notions for the statements about the alert engine: the percentage as the
  specification words it (zero when the total is zero), the property that every stored
  alert is open, and the report that \<^verbatim>\<open>main\<close> of \<^verbatim>\<open>sistema_alertas.py\<close> feeds in (the
  accent of one error text left out).\<close>

definition spec_percentage :: "int \<Rightarrow> int \<Rightarrow> real" where
  "spec_percentage affected tot =
     (if tot = 0 then 0 else real_of_int affected / real_of_int tot * 100)"

definition all_open :: "AlertSystem \<Rightarrow> bool" where
  "all_open s = list_all (\<lambda>a. status a = ''ABERTO'') (alerts s)"

definition mock_results :: Results where
  "mock_results =
     \<lparr> checkpoints = Some
         [(''checkpoint_clientes_lab'', \<lparr> success = Some False, error = Some ''Duplicatas > 10%'' \<rparr>),
          (''checkpoint_produtos'', \<lparr> success = Some True, error = None \<rparr>),
          (''checkpoint_vendas'', \<lparr> success = Some False, error = Some ''Valores invalidos'' \<rparr>),
          (''checkpoint_logistica'', \<lparr> success = Some True, error = None \<rparr>)],
       summary = Some \<lparr> total = Some 4, successful = Some 2, failed = Some 2,
                         success_rate = Some 50 \<rparr> \<rparr>"

section \<open>The libraries under the cleaner\<close>

subsection \<open>Text and numbers of a data frame\<close>

text \<open>A Python string is the list of its code points.  \<open>u\<close> writes one from an ASCII
  literal.\<close>

type_synonym ustring = "nat list"

definition u :: "string \<Rightarrow> ustring" where
  "u s = map of_char s"

text \<open>A cell of a \<^verbatim>\<open>float64\<close> column: a finite number, an infinity, or \<^verbatim>\<open>NaN\<close> (which is
  also the missing value of the column).  A column of whole numbers is \<^verbatim>\<open>int64\<close> only
  while no cell of the file is blank; the quantity of a sale is therefore a \<open>float64\<close>
  cell too, and a whole number in it is the finite number of that value.\<close>

datatype float64 = Finite real | PosInf | NegInf | NaN

definition is_finite :: "float64 \<Rightarrow> bool" where
  "is_finite a = (case a of Finite x \<Rightarrow> True | _ \<Rightarrow> False)"

text \<open>The arithmetic of IEEE doubles on these cells.  The result of an operation on two
  finite numbers is the exact result rounded to a double, by the rounding function
  \<open>rnd\<close> of the machine, which gives an infinity when the exact result is too large.\<close>

definition fmul :: "(real \<Rightarrow> float64) \<Rightarrow> float64 \<Rightarrow> float64 \<Rightarrow> float64" where
  "fmul rnd a b =
     (case (a, b) of
        (NaN, _) \<Rightarrow> NaN
      | (_, NaN) \<Rightarrow> NaN
      | (Finite x, Finite y) \<Rightarrow> rnd (x * y)
      | (Finite x, PosInf) \<Rightarrow> (if x = 0 then NaN else if 0 < x then PosInf else NegInf)
      | (Finite x, NegInf) \<Rightarrow> (if x = 0 then NaN else if 0 < x then NegInf else PosInf)
      | (PosInf, Finite y) \<Rightarrow> (if y = 0 then NaN else if 0 < y then PosInf else NegInf)
      | (NegInf, Finite y) \<Rightarrow> (if y = 0 then NaN else if 0 < y then NegInf else PosInf)
      | (PosInf, PosInf) \<Rightarrow> PosInf
      | (NegInf, NegInf) \<Rightarrow> PosInf
      | (PosInf, NegInf) \<Rightarrow> NegInf
      | (NegInf, PosInf) \<Rightarrow> NegInf)"

definition fsub :: "(real \<Rightarrow> float64) \<Rightarrow> float64 \<Rightarrow> float64 \<Rightarrow> float64" where
  "fsub rnd a b =
     (case (a, b) of
        (NaN, _) \<Rightarrow> NaN
      | (_, NaN) \<Rightarrow> NaN
      | (Finite x, Finite y) \<Rightarrow> rnd (x - y)
      | (Finite x, PosInf) \<Rightarrow> NegInf
      | (Finite x, NegInf) \<Rightarrow> PosInf
      | (PosInf, Finite y) \<Rightarrow> PosInf
      | (NegInf, Finite y) \<Rightarrow> NegInf
      | (PosInf, PosInf) \<Rightarrow> NaN
      | (NegInf, NegInf) \<Rightarrow> NaN
      | (PosInf, NegInf) \<Rightarrow> PosInf
      | (NegInf, PosInf) \<Rightarrow> NegInf)"

definition fabs :: "float64 \<Rightarrow> float64" where
  "fabs a = (case a of Finite x \<Rightarrow> Finite (abs x) | PosInf \<Rightarrow> PosInf | NegInf \<Rightarrow> PosInf
             | NaN \<Rightarrow> NaN)"

text \<open>The comparisons \<^verbatim>\<open><\<close> and \<^verbatim>\<open><=\<close>; both are false when an operand is \<^verbatim>\<open>NaN\<close>.\<close>

definition flt :: "float64 \<Rightarrow> float64 \<Rightarrow> bool" where
  "flt a b =
     (case (a, b) of
        (NaN, _) \<Rightarrow> False
      | (_, NaN) \<Rightarrow> False
      | (Finite x, Finite y) \<Rightarrow> x < y
      | (Finite x, PosInf) \<Rightarrow> True
      | (NegInf, Finite y) \<Rightarrow> True
      | (NegInf, PosInf) \<Rightarrow> True
      | _ \<Rightarrow> False)"

definition fle :: "float64 \<Rightarrow> float64 \<Rightarrow> bool" where
  "fle a b =
     (case (a, b) of
        (NaN, _) \<Rightarrow> False
      | (_, NaN) \<Rightarrow> False
      | (Finite x, Finite y) \<Rightarrow> x \<le> y
      | (Finite x, NegInf) \<Rightarrow> False
      | (PosInf, Finite y) \<Rightarrow> False
      | (PosInf, NegInf) \<Rightarrow> False
      | _ \<Rightarrow> True)"

text \<open>The literal \<^verbatim>\<open>0.01\<close> of the source denotes the double nearest to one hundredth.\<close>

definition tolerance :: real where
  "tolerance = 5764607523034235 / 576460752303423488"

subsection \<open>What the cleaner takes from Python, pandas and the machine\<close>

text \<open>
  The cleaner calls into libraries whose tables and algorithms are not part of the
  repository.  They are the fields of one record, and every function of the cleaner takes
  the record as its first argument:
  \<^item> the Unicode character database behind \<^verbatim>\<open>str.lower\<close>, \<^verbatim>\<open>str.upper\<close>,
    \<^verbatim>\<open>str.title\<close>, \<^verbatim>\<open>str.strip\<close> and the class \<^verbatim>\<open>\D\<close> of \<^verbatim>\<open>re\<close>: the full case mappings of
    a code point (one to three code points each) and its properties;
  \<^item> the date parser of \<^verbatim>\<open>pd.to_datetime\<close>, which gives no time stamp for a text it
    cannot read;
  \<^item> the sorting algorithm of \<^verbatim>\<open>sort_values\<close>: from the list of the keys it gives the
    list of the positions in sorted order.  The source leaves the algorithm at the
    default of pandas, which promises no order among equal keys;
  \<^item> the rounding of an exact result to a double.
\<close>

record Runtime =
  to_lower :: "nat \<Rightarrow> nat list"
  to_upper :: "nat \<Rightarrow> nat list"
  to_title :: "nat \<Rightarrow> nat list"
  is_cased :: "nat \<Rightarrow> bool"
  is_case_ignorable :: "nat \<Rightarrow> bool"
  is_space :: "nat \<Rightarrow> bool"
  is_decimal :: "nat \<Rightarrow> bool"
  parse_datetime :: "ustring \<Rightarrow> timestamp option"
  argsort :: "timestamp list \<Rightarrow> nat list"
  round_double :: "real \<Rightarrow> float64"

subsection \<open>The string methods\<close>

text \<open>\<^verbatim>\<open>str.lower\<close> maps every code point to its full lower case, except the capital
  sigma U+03A3: it becomes the final sigma U+03C2 when a cased code point comes before
  it and none after it, code points that case ignores being skipped, and the small sigma
  U+03C3 otherwise.  \<open>before\<close> holds the code points in front, the nearest first.\<close>

definition final_sigma :: "Runtime \<Rightarrow> ustring \<Rightarrow> ustring \<Rightarrow> bool" where
  "final_sigma rt before after =
     ((case dropWhile (is_case_ignorable rt) before of [] \<Rightarrow> False | c # _ \<Rightarrow> is_cased rt c)
      \<and> (case dropWhile (is_case_ignorable rt) after of [] \<Rightarrow> True | c # _ \<Rightarrow> \<not> is_cased rt c))"

definition lower_at :: "Runtime \<Rightarrow> ustring \<Rightarrow> nat \<Rightarrow> ustring \<Rightarrow> ustring" where
  "lower_at rt before c after =
     (if c = 0x3A3 then [if final_sigma rt before after then 0x3C2 else 0x3C3]
      else to_lower rt c)"

fun lower_from :: "Runtime \<Rightarrow> ustring \<Rightarrow> ustring \<Rightarrow> ustring" where
  "lower_from rt before [] = []"
| "lower_from rt before (c # cs) = lower_at rt before c cs @ lower_from rt (c # before) cs"

definition lower :: "Runtime \<Rightarrow> ustring \<Rightarrow> ustring" where
  "lower rt s = lower_from rt [] s"

definition upper :: "Runtime \<Rightarrow> ustring \<Rightarrow> ustring" where
  "upper rt s = concat (map (to_upper rt) s)"

text \<open>\<^verbatim>\<open>str.title\<close>: a code point after a cased one is put in lower case, any other in title
  case; whether a code point is cased is asked of the code point of the input.\<close>

fun title_from :: "Runtime \<Rightarrow> bool \<Rightarrow> ustring \<Rightarrow> ustring \<Rightarrow> ustring" where
  "title_from rt previous_is_cased before [] = []"
| "title_from rt previous_is_cased before (c # cs) =
     (if previous_is_cased then lower_at rt before c cs else to_title rt c)
       @ title_from rt (is_cased rt c) (c # before) cs"

definition title :: "Runtime \<Rightarrow> ustring \<Rightarrow> ustring" where
  "title rt s = title_from rt False [] s"

text \<open>\<^verbatim>\<open>str.strip()\<close> removes the white space at both ends.\<close>

definition lstrip :: "Runtime \<Rightarrow> ustring \<Rightarrow> ustring" where
  "lstrip rt s = dropWhile (is_space rt) s"

definition rstrip :: "Runtime \<Rightarrow> ustring \<Rightarrow> ustring" where
  "rstrip rt s = rev (dropWhile (is_space rt) (rev s))"

definition strip :: "Runtime \<Rightarrow> ustring \<Rightarrow> ustring" where
  "strip rt s = rstrip rt (lstrip rt s)"

text \<open>\<^verbatim>\<open>str\<close> of an integer, as the f-string \<^verbatim>\<open>f"Cliente {x}"\<close> renders the identifier.\<close>

function str_nat :: "nat \<Rightarrow> ustring" where
  "str_nat n = (if n < 10 then [48 + n] else str_nat (n div 10) @ [48 + n mod 10])"
  by pat_completeness auto
termination
  by (relation "measure (\<lambda>n. n)") auto

definition str_int :: "int \<Rightarrow> ustring" where
  "str_int i = (if i < 0 then 45 # str_nat (nat (- i)) else str_nat (nat i))"

text \<open>\<^verbatim>\<open>re.sub(r'\D', '', x)\<close> keeps the decimal digits.\<close>

definition digits_only :: "Runtime \<Rightarrow> ustring \<Rightarrow> ustring" where
  "digits_only rt x = filter (is_decimal rt) x"

text \<open>The e-mail pattern
  \<^verbatim>\<open>^[a-zA-Z0-9._%+-]+@[a-zA-Z0-9.-]+\.[a-zA-Z]{2,}$\<close> under \<^verbatim>\<open>re.match\<close>; its classes
  are ranges of ASCII.  No class before the \<^verbatim>\<open>@\<close> contains it, so the local part is the
  longest prefix in its class; the last group has letters only, so it is the longest
  suffix of letters and the dot is the code point before it; \<^verbatim>\<open>$\<close> also matches before
  one final newline.\<close>

definition ascii_upper_letter :: "nat \<Rightarrow> bool" where
  "ascii_upper_letter c = (65 \<le> c \<and> c \<le> 90)"

definition ascii_lower_letter :: "nat \<Rightarrow> bool" where
  "ascii_lower_letter c = (97 \<le> c \<and> c \<le> 122)"

definition ascii_letter :: "nat \<Rightarrow> bool" where
  "ascii_letter c = (ascii_upper_letter c \<or> ascii_lower_letter c)"

definition ascii_digit :: "nat \<Rightarrow> bool" where
  "ascii_digit c = (48 \<le> c \<and> c \<le> 57)"

definition in_local :: "nat \<Rightarrow> bool" where
  "in_local c = (ascii_letter c \<or> ascii_digit c \<or> c \<in> set (u ''._%+-''))"

definition in_domain :: "nat \<Rightarrow> bool" where
  "in_domain c = (ascii_letter c \<or> ascii_digit c \<or> c \<in> set (u ''.-''))"

definition domain_match :: "ustring \<Rightarrow> bool" where
  "domain_match d =
     (let tld = takeWhile ascii_letter (rev d); before = dropWhile ascii_letter (rev d)
      in 2 \<le> length tld \<and>
         (case before of [] \<Rightarrow> False
          | c # host \<Rightarrow> c = 46 \<and> host \<noteq> [] \<and> list_all in_domain host))"

definition email_match :: "ustring \<Rightarrow> bool" where
  "email_match s =
     (let local_part = takeWhile in_local s; rest = dropWhile in_local s
      in local_part \<noteq> [] \<and>
         (case rest of [] \<Rightarrow> False
          | c # d \<Rightarrow> c = 64 \<and>
              (domain_match d \<or> (d \<noteq> [] \<and> last d = 10 \<and> domain_match (butlast d)))))"

subsection \<open>Dates and untyped cells\<close>

text \<open>A cell of a date column: the text read from the file, a parsed time stamp, or
  missing (\<^verbatim>\<open>NaN\<close> before the conversion, \<^verbatim>\<open>NaT\<close> after it).
  \<^verbatim>\<open>pd.to_datetime(..., errors='coerce')\<close> parses text and gives \<^verbatim>\<open>NaT\<close> where it
  cannot.\<close>

datatype date_cell = Text ustring | Stamp timestamp | NaT

definition to_datetime :: "Runtime \<Rightarrow> date_cell \<Rightarrow> date_cell" where
  "to_datetime rt c =
     (case c of
        Text s \<Rightarrow> (case parse_datetime rt s of None \<Rightarrow> NaT | Some t \<Rightarrow> Stamp t)
      | Stamp t \<Rightarrow> Stamp t
      | NaT \<Rightarrow> NaT)"

definition stamp_of :: "date_cell \<Rightarrow> timestamp option" where
  "stamp_of c = (case c of Stamp t \<Rightarrow> Some t | _ \<Rightarrow> None)"

text \<open>A cell of an \<^verbatim>\<open>object\<close> column that holds booleans, numbers or text, and
  \<^verbatim>\<open>astype(str)\<close> on it (a missing value becomes the text \<^verbatim>\<open>nan\<close>).\<close>

datatype pyval = PNone | PBool bool | PInt int | PStr ustring

definition astype_str :: "pyval \<Rightarrow> ustring" where
  "astype_str v =
     (case v of PNone \<Rightarrow> u ''nan'' | PBool b \<Rightarrow> (if b then u ''True'' else u ''False'')
      | PInt i \<Rightarrow> str_int i | PStr s \<Rightarrow> s)"

subsection \<open>Data frames as lists of rows\<close>

text \<open>A boolean mask is a list of booleans, one per row.  \<open>mask_sum\<close> is \<^verbatim>\<open>mask.sum()\<close>,
  \<open>select_rows\<close> is \<^verbatim>\<open>df[mask]\<close>, and \<open>loc_assign\<close> is an assignment
  \<^verbatim>\<open>df.loc[mask, column] = ...\<close>, given as the update of one row.\<close>

definition mask_sum :: "bool list \<Rightarrow> nat" where
  "mask_sum msk = length (filter (\<lambda>b. b) msk)"

definition select_rows :: "bool list \<Rightarrow> 'a list \<Rightarrow> 'a list" where
  "select_rows msk df = map fst (filter snd (zip df msk))"

definition loc_assign :: "bool list \<Rightarrow> ('a \<Rightarrow> 'a) \<Rightarrow> 'a list \<Rightarrow> 'a list" where
  "loc_assign msk f df = map (\<lambda>(r, b). if b then f r else r) (zip df msk)"

text \<open>\<^verbatim>\<open>duplicated\<close> marks every row whose key has occurred in an earlier row, and
  \<^verbatim>\<open>drop_duplicates(keep='first')\<close> removes the marked rows.\<close>

fun duplicated_from :: "'k list \<Rightarrow> 'k list \<Rightarrow> bool list" where
  "duplicated_from seen [] = []"
| "duplicated_from seen (k # ks) = (k \<in> set seen) # duplicated_from (k # seen) ks"

definition duplicated :: "'k list \<Rightarrow> bool list" where
  "duplicated ks = duplicated_from [] ks"

definition drop_duplicates :: "('a \<Rightarrow> 'k) \<Rightarrow> 'a list \<Rightarrow> 'a list" where
  "drop_duplicates key df = select_rows (map Not (duplicated (map key df))) df"

text \<open>\<^verbatim>\<open>sort_values(column, ascending=False)\<close>: pandas takes the rows that have a value,
  reverses them, asks the sorting algorithm for the positions of their keys in ascending
  order, takes the rows at these positions, reverses the result, and puts the rows
  without a value last.  \<open>sorter\<close> is the sorting algorithm.\<close>

definition sort_values_desc ::
  "('k list \<Rightarrow> nat list) \<Rightarrow> ('a \<Rightarrow> 'k option) \<Rightarrow> 'a list \<Rightarrow> 'a list" where
  "sort_values_desc sorter key df =
     (let non_nans = rev (filter (\<lambda>r. key r \<noteq> None) df);
          indexer = sorter (map (\<lambda>r. the (key r)) non_nans)
      in rev (map (\<lambda>i. non_nans ! i) indexer) @ filter (\<lambda>r. key r = None) df)"

section \<open>The cleaner (\<^verbatim>\<open>correcao_automatica.py\<close>)\<close>

text \<open>
  The four frames, with the columns and types of \<^verbatim>\<open>SchemaValidator.SCHEMAS\<close>: an
  identifier or stock column (\<^verbatim>\<open>int64\<close>) is \<open>int\<close>, a price, total or quantity column is
  \<open>float64\<close>, a text column is \<open>ustring option\<close> with \<open>None\<close> for a missing cell, a date
  column is \<open>date_cell\<close>.  The columns \<^verbatim>\<open>id_cliente\<close>,
  \<^verbatim>\<open>id_produto\<close> and \<^verbatim>\<open>status\<close> of the sales frame are \<open>venda_id_cliente\<close>,
  \<open>venda_id_produto\<close> and \<open>venda_status\<close>, and \<^verbatim>\<open>id_venda\<close> of the logistics frame is
  \<open>entrega_id_venda\<close>, since a field name belongs to one record.
\<close>

record Cliente =
  id_cliente :: int
  nome :: "ustring option"
  email :: "ustring option"
  telefone :: "ustring option"
  data_nascimento :: date_cell
  cidade :: "ustring option"
  estado :: "ustring option"
  data_cadastro :: date_cell

record Produto =
  id_produto :: int
  nome_produto :: "ustring option"
  categoria :: "ustring option"
  preco :: float64
  estoque :: int
  data_criacao :: date_cell
  ativo :: pyval

record Venda =
  id_venda :: int
  venda_id_cliente :: int
  venda_id_produto :: int
  quantidade :: float64
  valor_unitario :: float64
  valor_total :: float64
  data_venda :: date_cell
  venda_status :: "ustring option"

record Entrega =
  id_entrega :: int
  entrega_id_venda :: int
  transportadora :: "ustring option"
  data_envio :: date_cell
  data_entrega_prevista :: date_cell
  data_entrega_real :: date_cell
  status_entrega :: "ustring option"

subsection \<open>The correction log\<close>

record CorrectionRecord =
  cr_timestamp :: timestamp
  cr_dataset :: string
  record_id :: int
  field :: string
  old_value :: string
  new_value :: string
  reason :: string

record DataCleaner =
  corrections_log :: "CorrectionRecord list"

definition DataCleaner_init :: DataCleaner where
  "DataCleaner_init = \<lparr> corrections_log = [] \<rparr>"

text \<open>\<^verbatim>\<open>log_correction\<close>; the two values are given as the text that \<^verbatim>\<open>str\<close> makes of
  them.\<close>

definition log_correction ::
  "timestamp \<Rightarrow> string \<Rightarrow> int \<Rightarrow> string \<Rightarrow> string \<Rightarrow> string \<Rightarrow> string \<Rightarrow> DataCleaner
     \<Rightarrow> DataCleaner" where
  "log_correction now ds rid fld old new rsn c =
     c\<lparr>corrections_log := corrections_log c @
        [\<lparr> cr_timestamp = now, cr_dataset = ds, record_id = rid, field = fld,
           old_value = old, new_value = new, reason = rsn \<rparr>]\<rparr>"

subsection \<open>\<^verbatim>\<open>clean_clientes\<close>\<close>

text \<open>Step 1: when some identifier occurs twice, the registration dates are converted,
  the rows are sorted by them (latest first) and the first row of each identifier is
  kept.\<close>

definition clientes_remover_duplicatas ::
  "Runtime \<Rightarrow> Cliente list \<Rightarrow> Cliente list" where
  "clientes_remover_duplicatas rt df =
     (let duplicates_before = mask_sum (duplicated (map id_cliente df))
      in if duplicates_before > 0
         then (let df1 = map (\<lambda>r. r\<lparr>data_cadastro := to_datetime rt (data_cadastro r)\<rparr>) df;
                   df2 = sort_values_desc (argsort rt) (\<lambda>r. stamp_of (data_cadastro r)) df1
               in drop_duplicates id_cliente df2)
         else df)"

text \<open>Step 2: \<^verbatim>\<open>astype(str)\<close> turns a missing telephone into the text \<^verbatim>\<open>nan\<close>, so
  \<^verbatim>\<open>pd.notna\<close> holds of every cell and the digits of every cell are kept.\<close>

definition clientes_padronizar_telefone :: "Runtime \<Rightarrow> Cliente list \<Rightarrow> Cliente list" where
  "clientes_padronizar_telefone rt df =
     map (\<lambda>r. r\<lparr>telefone :=
            Some (digits_only rt (case telefone r of None \<Rightarrow> u ''nan'' | Some x \<Rightarrow> x))\<rparr>) df"

text \<open>Step 3.\<close>

definition clientes_normalizar_email :: "Runtime \<Rightarrow> Cliente list \<Rightarrow> Cliente list" where
  "clientes_normalizar_email rt df =
     map (\<lambda>r. r\<lparr>email := map_option (\<lambda>x. strip rt (lower rt x)) (email r)\<rparr>) df"

text \<open>Step 4: \<^verbatim>\<open>str.match(email_pattern, na=False)\<close> is false on a missing cell.\<close>

definition clientes_validar_email :: "Cliente list \<Rightarrow> Cliente list" where
  "clientes_validar_email df =
     (let invalid_emails =
            map (\<lambda>r. \<not> (case email r of None \<Rightarrow> False | Some x \<Rightarrow> email_match x)) df
      in if mask_sum invalid_emails > 0
         then loc_assign invalid_emails (\<lambda>r. r\<lparr>email := None\<rparr>) df
         else df)"

text \<open>Steps 5 and 6.\<close>

definition clientes_padronizar_estado :: "Runtime \<Rightarrow> Cliente list \<Rightarrow> Cliente list" where
  "clientes_padronizar_estado rt df =
     map (\<lambda>r. r\<lparr>estado := map_option (\<lambda>x. strip rt (upper rt x)) (estado r)\<rparr>) df"

definition clientes_padronizar_cidade :: "Runtime \<Rightarrow> Cliente list \<Rightarrow> Cliente list" where
  "clientes_padronizar_cidade rt df =
     map (\<lambda>r. r\<lparr>cidade := map_option (\<lambda>x. strip rt (title rt x)) (cidade r)\<rparr>) df"

text \<open>Step 7.\<close>

definition clientes_preencher_nomes :: "Runtime \<Rightarrow> Cliente list \<Rightarrow> Cliente list" where
  "clientes_preencher_nomes rt df =
     (let nome_vazio =
            map (\<lambda>r. nome r = None \<or> map_option (strip rt) (nome r) = Some []) df
      in if mask_sum nome_vazio > 0
         then loc_assign nome_vazio
                (\<lambda>r. r\<lparr>nome := Some (u ''Cliente '' @ str_int (id_cliente r))\<rparr>) df
         else df)"

text \<open>Step 8: a comparison with the year of a missing date is false.\<close>

definition clientes_validar_nascimento ::
  "Runtime \<Rightarrow> timestamp \<Rightarrow> Cliente list \<Rightarrow> Cliente list" where
  "clientes_validar_nascimento rt now df =
     (let df1 = map (\<lambda>r. r\<lparr>data_nascimento := to_datetime rt (data_nascimento r)\<rparr>) df;
          current_year = year now;
          invalid_birth =
            map (\<lambda>r. case stamp_of (data_nascimento r) of None \<Rightarrow> False
                      | Some t \<Rightarrow> year t < 1900 \<or> year t > current_year) df1
      in if mask_sum invalid_birth > 0
         then loc_assign invalid_birth (\<lambda>r. r\<lparr>data_nascimento := NaT\<rparr>) df1
         else df1)"

definition clean_clientes ::
  "Runtime \<Rightarrow> timestamp \<Rightarrow> Cliente list \<Rightarrow> Cliente list" where
  "clean_clientes rt now df =
     clientes_validar_nascimento rt now
       (clientes_preencher_nomes rt
         (clientes_padronizar_cidade rt
           (clientes_padronizar_estado rt
             (clientes_validar_email
               (clientes_normalizar_email rt
                 (clientes_padronizar_telefone rt
                   (clientes_remover_duplicatas rt df)))))))"

subsection \<open>\<^verbatim>\<open>clean_produtos\<close>\<close>

text \<open>Step 1 compares whole rows.  Steps 2 to 4 assign under a mask; steps 5 to 8 rewrite
  a column.\<close>

definition produtos_remover_duplicatas :: "Produto list \<Rightarrow> Produto list" where
  "produtos_remover_duplicatas df =
     (let duplicates = mask_sum (duplicated df)
      in if duplicates > 0 then drop_duplicates (\<lambda>r. r) df else df)"

definition produtos_corrigir_precos :: "Produto list \<Rightarrow> Produto list" where
  "produtos_corrigir_precos df =
     (let preco_negativo = map (\<lambda>r. flt (preco r) (Finite 0)) df
      in if mask_sum preco_negativo > 0
         then loc_assign preco_negativo (\<lambda>r. r\<lparr>preco := fabs (preco r)\<rparr>) df
         else df)"

definition produtos_validar_estoque :: "Produto list \<Rightarrow> Produto list" where
  "produtos_validar_estoque df =
     (let estoque_negativo = map (\<lambda>r. estoque r < 0) df
      in if mask_sum estoque_negativo > 0
         then loc_assign estoque_negativo (\<lambda>r. r\<lparr>estoque := 0\<rparr>) df
         else df)"

definition produtos_preencher_categorias :: "Runtime \<Rightarrow> Produto list \<Rightarrow> Produto list" where
  "produtos_preencher_categorias rt df =
     (let categoria_vazia =
            map (\<lambda>r. categoria r = None \<or> map_option (strip rt) (categoria r) = Some []) df
      in if mask_sum categoria_vazia > 0
         then loc_assign categoria_vazia (\<lambda>r. r\<lparr>categoria := Some (u ''Sem Categoria'')\<rparr>) df
         else df)"

text \<open>Step 7: \<^verbatim>\<open>astype(str).str.lower()\<close>, then \<^verbatim>\<open>map({'true': True, 'false': False})\<close>,
  which gives a missing value for every other text.\<close>

definition padronizar_ativo :: "Runtime \<Rightarrow> pyval \<Rightarrow> pyval" where
  "padronizar_ativo rt v =
     (let x = lower rt (astype_str v)
      in if x = u ''true'' then PBool True else if x = u ''false'' then PBool False
         else PNone)"

definition clean_produtos ::
  "Runtime \<Rightarrow> Produto list \<Rightarrow> Produto list" where
  "clean_produtos rt df =
     map (\<lambda>r. r\<lparr>data_criacao := to_datetime rt (data_criacao r)\<rparr>)
       (map (\<lambda>r. r\<lparr>ativo := padronizar_ativo rt (ativo r)\<rparr>)
         (map (\<lambda>r. r\<lparr>nome_produto := map_option (strip rt) (nome_produto r)\<rparr>)
           (map (\<lambda>r. r\<lparr>categoria := map_option (\<lambda>x. strip rt (title rt x)) (categoria r)\<rparr>)
             (produtos_preencher_categorias rt
               (produtos_validar_estoque
                 (produtos_corrigir_precos
                   (produtos_remover_duplicatas df)))))))"

subsection \<open>\<^verbatim>\<open>clean_vendas\<close>\<close>

text \<open>Steps 1 and 2: \<^verbatim>\<open>isin\<close> against the identifiers of the cleaned customers and of
  the cleaned products.\<close>

definition vendas_validar_clientes :: "Cliente list \<Rightarrow> Venda list \<Rightarrow> Venda list" where
  "vendas_validar_clientes df_clientes df =
     (let valid_clients = remdups (map id_cliente df_clientes);
          invalid_clients = map (\<lambda>v. \<not> (venda_id_cliente v \<in> set valid_clients)) df
      in if mask_sum invalid_clients > 0
         then select_rows (map Not invalid_clients) df
         else df)"

definition vendas_validar_produtos :: "Produto list \<Rightarrow> Venda list \<Rightarrow> Venda list" where
  "vendas_validar_produtos df_produtos df =
     (let valid_products = remdups (map id_produto df_produtos);
          invalid_products = map (\<lambda>v. \<not> (venda_id_produto v \<in> set valid_products)) df
      in if mask_sum invalid_products > 0
         then select_rows (map Not invalid_products) df
         else df)"

text \<open>Step 3: a missing status differs from \<^verbatim>\<open>'Cancelada'\<close>.\<close>

definition vendas_corrigir_quantidade :: "Venda list \<Rightarrow> Venda list" where
  "vendas_corrigir_quantidade df =
     (let not_canceled = map (\<lambda>v. venda_status v \<noteq> Some (u ''Cancelada'')) df;
          qty_negative =
            map (\<lambda>(v, nc). fle (quantidade v) (Finite 0) \<and> nc) (zip df not_canceled)
      in if mask_sum qty_negative > 0
         then loc_assign qty_negative (\<lambda>v. v\<lparr>quantidade := fabs (quantidade v)\<rparr>) df
         else df)"

text \<open>Step 4: the product \<^verbatim>\<open>quantidade * valor_unitario\<close>, the absolute difference from the
  total and its comparison with the tolerance, in the arithmetic of doubles.  The
  comparison is false when the difference is \<^verbatim>\<open>NaN\<close>.\<close>

definition valor_total_calculado :: "Runtime \<Rightarrow> Venda \<Rightarrow> float64" where
  "valor_total_calculado rt v = fmul (round_double rt) (quantidade v) (valor_unitario v)"

definition vendas_recalcular_total :: "Runtime \<Rightarrow> Venda list \<Rightarrow> Venda list" where
  "vendas_recalcular_total rt df =
     (let difference =
            map (\<lambda>v. fabs (fsub (round_double rt) (valor_total v) (valor_total_calculado rt v))) df;
          inconsistent = map (\<lambda>d. flt (Finite tolerance) d) difference
      in if mask_sum inconsistent > 0
         then loc_assign inconsistent (\<lambda>v. v\<lparr>valor_total := valor_total_calculado rt v\<rparr>) df
         else df)"

text \<open>Step 5.\<close>

definition vendas_validar_data ::
  "Runtime \<Rightarrow> timestamp \<Rightarrow> Venda list \<Rightarrow> Venda list" where
  "vendas_validar_data rt now df =
     (let df1 = map (\<lambda>v. v\<lparr>data_venda := to_datetime rt (data_venda v)\<rparr>) df;
          future_dates =
            map (\<lambda>v. case stamp_of (data_venda v) of None \<Rightarrow> False | Some t \<Rightarrow> t > now) df1
      in if mask_sum future_dates > 0
         then loc_assign future_dates (\<lambda>v. v\<lparr>data_venda := Stamp now\<rparr>) df1
         else df1)"

definition clean_vendas ::
  "Runtime \<Rightarrow> timestamp \<Rightarrow> Venda list \<Rightarrow> Cliente list \<Rightarrow> Produto list
     \<Rightarrow> Venda list" where
  "clean_vendas rt now df df_clientes df_produtos =
     map (\<lambda>v. v\<lparr>venda_status := map_option (\<lambda>x. strip rt (title rt x)) (venda_status v)\<rparr>)
       (vendas_validar_data rt now
         (vendas_recalcular_total rt
           (vendas_corrigir_quantidade
             (vendas_validar_produtos df_produtos
               (vendas_validar_clientes df_clientes df)))))"

subsection \<open>\<^verbatim>\<open>clean_logistica\<close>\<close>

definition logistica_validar_vendas :: "Venda list \<Rightarrow> Entrega list \<Rightarrow> Entrega list" where
  "logistica_validar_vendas df_vendas df =
     (let valid_sales = remdups (map id_venda df_vendas);
          invalid_sales = map (\<lambda>e. \<not> (entrega_id_venda e \<in> set valid_sales)) df
      in if mask_sum invalid_sales > 0
         then select_rows (map Not invalid_sales) df
         else df)"

text \<open>Steps 2 to 4; step 5 only counts the rows delivered before they were sent and
  writes the count to the log.\<close>

definition clean_logistica ::
  "Runtime \<Rightarrow> Entrega list \<Rightarrow> Venda list \<Rightarrow> Entrega list" where
  "clean_logistica rt df df_vendas =
     map (\<lambda>e. e\<lparr>transportadora := map_option (\<lambda>x. strip rt (title rt x)) (transportadora e)\<rparr>)
       (map (\<lambda>e. e\<lparr>status_entrega := map_option (\<lambda>x. strip rt (title rt x)) (status_entrega e)\<rparr>)
         (map (\<lambda>e. e\<lparr>data_envio := to_datetime rt (data_envio e),
                      data_entrega_prevista := to_datetime rt (data_entrega_prevista e),
                      data_entrega_real := to_datetime rt (data_entrega_real e)\<rparr>)
           (logistica_validar_vendas df_vendas df)))"

subsection \<open>\<^verbatim>\<open>clean_all\<close> and the methods as state transformers\<close>

record Cleaned =
  clientes :: "Cliente list"
  produtos :: "Produto list"
  vendas :: "Venda list"
  logistica :: "Entrega list"

definition clean_all ::
  "Runtime \<Rightarrow> timestamp \<Rightarrow> Cliente list \<Rightarrow> Produto list \<Rightarrow> Venda list
     \<Rightarrow> Entrega list \<Rightarrow> Cleaned" where
  "clean_all rt now clientes_df produtos_df vendas_df logistica_df =
     (let clientes_clean = clean_clientes rt now clientes_df;
          produtos_clean = clean_produtos rt produtos_df;
          vendas_clean = clean_vendas rt now vendas_df clientes_clean produtos_clean;
          logistica_clean = clean_logistica rt logistica_df vendas_clean
      in \<lparr> clientes = clientes_clean, produtos = produtos_clean,
           vendas = vendas_clean, logistica = logistica_clean \<rparr>)"


definition DataCleaner_clean_vendas ::
  "Runtime \<Rightarrow> timestamp \<Rightarrow> Venda list \<Rightarrow> Cliente list \<Rightarrow> Produto list
     \<Rightarrow> DataCleaner \<Rightarrow> Venda list \<times> DataCleaner" where
  "DataCleaner_clean_vendas rt now df df_clientes df_produtos self =
     (clean_vendas rt now df df_clientes df_produtos, self)"

definition DataCleaner_clean_all ::
  "Runtime \<Rightarrow> timestamp \<Rightarrow> Cliente list \<Rightarrow> Produto list \<Rightarrow> Venda list
     \<Rightarrow> Entrega list \<Rightarrow> DataCleaner \<Rightarrow> Cleaned \<times> DataCleaner" where
  "DataCleaner_clean_all rt now clientes_df produtos_df vendas_df logistica_df self =
     (clean_all rt now clientes_df produtos_df vendas_df logistica_df, self)"

section \<open>The cleaning steps row by row\<close>

text \<open>Every step after the removal of rows treats each row on its own.  The functions
  below give the effect of such a step on one row; that the step is the map of its row
  function is proved further down.\<close>

definition corrigir_quantidade_row :: "Venda \<Rightarrow> Venda" where
  "corrigir_quantidade_row v =
     (if fle (quantidade v) (Finite 0) \<and> venda_status v \<noteq> Some (u ''Cancelada'')
      then v\<lparr>quantidade := fabs (quantidade v)\<rparr> else v)"

definition inconsistent_row :: "Runtime \<Rightarrow> Venda \<Rightarrow> bool" where
  "inconsistent_row rt v =
     flt (Finite tolerance)
       (fabs (fsub (round_double rt) (valor_total v) (valor_total_calculado rt v)))"

definition recalcular_total_row :: "Runtime \<Rightarrow> Venda \<Rightarrow> Venda" where
  "recalcular_total_row rt v =
     (if inconsistent_row rt v then v\<lparr>valor_total := valor_total_calculado rt v\<rparr> else v)"

definition validar_data_row :: "Runtime \<Rightarrow> timestamp \<Rightarrow> Venda \<Rightarrow> Venda" where
  "validar_data_row rt now v =
     (case to_datetime rt (data_venda v) of
        Stamp t \<Rightarrow> (if t > now then v\<lparr>data_venda := Stamp now\<rparr> else v\<lparr>data_venda := Stamp t\<rparr>)
      | c \<Rightarrow> v\<lparr>data_venda := c\<rparr>)"

definition clean_venda_row :: "Runtime \<Rightarrow> timestamp \<Rightarrow> Venda \<Rightarrow> Venda" where
  "clean_venda_row rt now v =
     (let v1 = validar_data_row rt now (recalcular_total_row rt (corrigir_quantidade_row v))
      in v1\<lparr>venda_status := map_option (\<lambda>x. strip rt (title rt x)) (venda_status v1)\<rparr>)"

text \<open>The customer columns, cell by cell, and a customer row.\<close>

definition clean_telefone :: "Runtime \<Rightarrow> ustring option \<Rightarrow> ustring option" where
  "clean_telefone rt t = Some (digits_only rt (case t of None \<Rightarrow> u ''nan'' | Some x \<Rightarrow> x))"

definition clean_email :: "Runtime \<Rightarrow> ustring option \<Rightarrow> ustring option" where
  "clean_email rt e =
     (case map_option (\<lambda>x. strip rt (lower rt x)) e of
        None \<Rightarrow> None
      | Some x \<Rightarrow> if email_match x then Some x else None)"

definition fill_nome :: "Runtime \<Rightarrow> int \<Rightarrow> ustring option \<Rightarrow> ustring option" where
  "fill_nome rt i n =
     (if n = None \<or> map_option (strip rt) n = Some []
      then Some (u ''Cliente '' @ str_int i) else n)"

definition clean_nascimento :: "Runtime \<Rightarrow> timestamp \<Rightarrow> date_cell \<Rightarrow> date_cell" where
  "clean_nascimento rt now c =
     (case to_datetime rt c of
        Stamp t \<Rightarrow> if year t < 1900 \<or> year t > year now then NaT else Stamp t
      | c' \<Rightarrow> c')"

definition clean_cliente_row :: "Runtime \<Rightarrow> timestamp \<Rightarrow> Cliente \<Rightarrow> Cliente" where
  "clean_cliente_row rt now r =
     r\<lparr> telefone := clean_telefone rt (telefone r),
        email := clean_email rt (email r),
        estado := map_option (\<lambda>x. strip rt (upper rt x)) (estado r),
        cidade := map_option (\<lambda>x. strip rt (title rt x)) (cidade r),
        nome := fill_nome rt (id_cliente r) (nome r),
        data_nascimento := clean_nascimento rt now (data_nascimento r) \<rparr>"

text \<open>A product row and a delivery row.\<close>

definition preencher_categoria :: "Runtime \<Rightarrow> ustring option \<Rightarrow> ustring option" where
  "preencher_categoria rt c =
     (if c = None \<or> map_option (strip rt) c = Some [] then Some (u ''Sem Categoria'') else c)"

definition clean_produto_row :: "Runtime \<Rightarrow> Produto \<Rightarrow> Produto" where
  "clean_produto_row rt r =
     r\<lparr> preco := (if flt (preco r) (Finite 0) then fabs (preco r) else preco r),
        estoque := (if estoque r < 0 then 0 else estoque r),
        categoria :=
          map_option (\<lambda>x. strip rt (title rt x)) (preencher_categoria rt (categoria r)),
        nome_produto := map_option (strip rt) (nome_produto r),
        ativo := padronizar_ativo rt (ativo r),
        data_criacao := to_datetime rt (data_criacao r) \<rparr>"

definition clean_entrega_row :: "Runtime \<Rightarrow> Entrega \<Rightarrow> Entrega" where
  "clean_entrega_row rt e =
     e\<lparr> data_envio := to_datetime rt (data_envio e),
        data_entrega_prevista := to_datetime rt (data_entrega_prevista e),
        data_entrega_real := to_datetime rt (data_entrega_real e),
        status_entrega := map_option (\<lambda>x. strip rt (title rt x)) (status_entrega e),
        transportadora := map_option (\<lambda>x. strip rt (title rt x)) (transportadora e) \<rparr>"

section \<open>What is assumed of the libraries\<close>

text \<open>A sorting algorithm gives, for every list of keys, a list of all the positions of
  the list, each once, such that the keys at these positions are in ascending order.
  Nothing is said of the order of the positions of equal keys.\<close>

definition argsort_ok :: "('k::linorder list \<Rightarrow> nat list) \<Rightarrow> bool" where
  "argsort_ok sorter =
     (\<forall>ks. length (sorter ks) = length ks
          \<and> set (sorter ks) = {..<length ks}
          \<and> sorted (map (\<lambda>i. ks ! i) (sorter ks)))"

text \<open>The rounding of an exact result gives a number or an infinity, never \<^verbatim>\<open>NaN\<close>, and
  it gives zero for zero.\<close>

definition round_ok :: "Runtime \<Rightarrow> bool" where
  "round_ok rt = ((\<forall>x. round_double rt x \<noteq> NaN) \<and> round_double rt 0 = Finite 0)"

text \<open>The string methods on ASCII: the letters \<^verbatim>\<open>A\<close> to \<^verbatim>\<open>Z\<close> and \<^verbatim>\<open>a\<close> to \<^verbatim>\<open>z\<close> are
  the cased code points and are mapped to each other, and the white space is the code
  points 9 to 13 and 28 to 32.  \<open>ascii_runtime\<close> says that the tables of a runtime are
  these on the code points below 128.\<close>

definition ascii_lower :: "nat \<Rightarrow> nat" where
  "ascii_lower c = (if ascii_upper_letter c then c + 32 else c)"

definition ascii_upper :: "nat \<Rightarrow> nat" where
  "ascii_upper c = (if ascii_lower_letter c then c - 32 else c)"

definition ascii_space :: "nat \<Rightarrow> bool" where
  "ascii_space c = ((9 \<le> c \<and> c \<le> 13) \<or> (28 \<le> c \<and> c \<le> 32))"


definition ascii_text :: "ustring \<Rightarrow> bool" where
  "ascii_text s = list_all (\<lambda>c. c < 128) s"







section \<open>A runtime for the examples\<close>

text \<open>The tables of the Unicode character database on ASCII and on the other code points
  of the examples: U+00C3 and U+00E3 (the letter a with tilde), U+01F0 (the small j with
  caron, whose upper case and title case are the two code points U+004A U+030C), U+030C
  (the combining caron, which case ignores), and the spaces U+0085 and U+00A0.  On every
  other code point the tables below say that it is not cased, is not white space and is
  its own lower, upper and title case; no example contains one.\<close>

definition to_lower_1 :: "nat \<Rightarrow> nat list" where
  "to_lower_1 c = (if c = 0xC3 then [0xE3] else [ascii_lower c])"

definition to_upper_1 :: "nat \<Rightarrow> nat list" where
  "to_upper_1 c =
     (if c = 0xE3 then [0xC3] else if c = 0x1F0 then [0x4A, 0x30C] else [ascii_upper c])"

definition is_cased_1 :: "nat \<Rightarrow> bool" where
  "is_cased_1 c = (ascii_letter c \<or> c = 0xC3 \<or> c = 0xE3 \<or> c = 0x1F0)"

definition is_case_ignorable_1 :: "nat \<Rightarrow> bool" where
  "is_case_ignorable_1 c = (c = 39 \<or> c = 46 \<or> c = 58 \<or> c = 94 \<or> c = 96 \<or> c = 0x30C)"

definition is_space_1 :: "nat \<Rightarrow> bool" where
  "is_space_1 c = (ascii_space c \<or> c = 0x85 \<or> c = 0xA0)"

text \<open>A date parser for the two dates of the scenario of the duplicate customers.\<close>

definition parse_scenario :: "ustring \<Rightarrow> timestamp option" where
  "parse_scenario s =
     (if s = u ''2023-01-01'' then Some (2023, 1, 1, 0)
      else if s = u ''2024-06-01'' then Some (2024, 6, 1, 0) else None)"

text \<open>A stable sorting algorithm: the positions are inserted one by one, a position after
  the positions of equal keys that are already there.\<close>

definition argsort_1 :: "timestamp list \<Rightarrow> nat list" where
  "argsort_1 ks = sort_key (\<lambda>i. ks ! i) [0..<length ks]"

text \<open>A rounding that overflows where the rounding of doubles does, at
  \<^verbatim>\<open>2^1024 - 2^970\<close>, and is exact below.  The numbers of the examples are doubles, and so
  are their products and differences below the overflow, which the rounding of the
  machine leaves as they are.\<close>

definition overflow_threshold :: real where
  "overflow_threshold = 2 ^ 970 * (2 ^ 54 - 1)"

definition round_1 :: "real \<Rightarrow> float64" where
  "round_1 x =
     (if overflow_threshold \<le> x then PosInf
      else if x \<le> - overflow_threshold then NegInf
      else Finite x)"

definition runtime_1 :: Runtime where
  "runtime_1 =
     \<lparr> to_lower = to_lower_1, to_upper = to_upper_1, to_title = to_upper_1,
       is_cased = is_cased_1, is_case_ignorable = is_case_ignorable_1,
       is_space = is_space_1, is_decimal = ascii_digit,
       parse_datetime = parse_scenario, argsort = argsort_1, round_double = round_1 \<rparr>"

text \<open>The same runtime with a sorting algorithm that is not stable: it sorts the positions
  after rotating them by ten places, so that the positions of equal keys come out in
  another order than that of the list.\<close>

definition argsort_2 :: "timestamp list \<Rightarrow> nat list" where
  "argsort_2 ks = sort_key (\<lambda>i. ks ! i) (rotate 10 [0..<length ks])"

definition runtime_2 :: Runtime where
  "runtime_2 = runtime_1\<lparr>argsort := argsort_2\<rparr>"

section \<open>Notions of the specification and example data\<close>

text \<open>The total-value invariant of a sales row as the specification states it,
  \<open>|total - quantity * unit_price| \<le> 0.01\<close>, with the product, the difference and the
  comparison of doubles.  It is false when the difference is \<^verbatim>\<open>NaN\<close>.\<close>

definition total_invariant :: "Runtime \<Rightarrow> Venda \<Rightarrow> bool" where
  "total_invariant rt v =
     fle (fabs (fsub (round_double rt) (valor_total v)
                  (fmul (round_double rt) (quantidade v) (valor_unitario v))))
         (Finite tolerance)"

text \<open>One customer, one product, and the sales row of the scenario: quantity 5, unit
  price 2.00, total 9.00.\<close>

definition cliente_1 :: Cliente where
  "cliente_1 = \<lparr> id_cliente = 1, nome = Some (u ''Ana''),
     email = Some (u ''ana@example.com''), telefone = Some (u ''11999990000''),
     data_nascimento = Stamp (1990, 5, 17, 0), cidade = Some (u ''Recife''),
     estado = Some (u ''PE''), data_cadastro = Stamp (2023, 1, 1, 0) \<rparr>"

definition produto_1 :: Produto where
  "produto_1 = \<lparr> id_produto = 1, nome_produto = Some (u ''Teclado''),
     categoria = Some (u ''Perifericos''), preco = Finite 2, estoque = 10,
     data_criacao = Stamp (2022, 3, 1, 0), ativo = PBool True \<rparr>"

definition venda_1 :: Venda where
  "venda_1 = \<lparr> id_venda = 1, venda_id_cliente = 1, venda_id_produto = 1,
     quantidade = Finite 5, valor_unitario = Finite 2, valor_total = Finite 9,
     data_venda = Stamp (2024, 1, 15, 0), venda_status = Some (u ''Pendente'') \<rparr>"

definition entrega_1 :: Entrega where
  "entrega_1 = \<lparr> id_entrega = 1, entrega_id_venda = 1,
     transportadora = Some (u ''Correios''), data_envio = Stamp (2024, 1, 16, 0),
     data_entrega_prevista = Stamp (2024, 1, 20, 0), data_entrega_real = NaT,
     status_entrega = Some (u ''Em Transito'') \<rparr>"

text \<open>A moment after the example dates.\<close>

definition now_1 :: timestamp where
  "now_1 = (2024, 6, 1, 0)"

text \<open>The active flag as the specification states it: true exactly when the text of the
  original value is \<^verbatim>\<open>true\<close> in lower case, false exactly when it is \<^verbatim>\<open>false\<close>, and
  missing for every other value.\<close>

definition ativo_as_specified :: "Runtime \<Rightarrow> pyval \<Rightarrow> pyval \<Rightarrow> bool" where
  "ativo_as_specified rt original cleaned =
     ((cleaned = PBool True \<longleftrightarrow> lower rt (astype_str original) = u ''true'')
      \<and> (cleaned = PBool False \<longleftrightarrow> lower rt (astype_str original) = u ''false'')
      \<and> (lower rt (astype_str original) \<noteq> u ''true''
           \<and> lower rt (astype_str original) \<noteq> u ''false''
           \<longrightarrow> cleaned = PNone))"

text \<open>A raw customer row that every step changes, the row that cleaning makes of it, and
  a later moment for a second run.\<close>

definition cliente_bruto :: Cliente where
  "cliente_bruto = \<lparr> id_cliente = 2, nome = None, email = Some (u ''  ANA@Example.COM ''),
     telefone = Some (u ''(11) 9999-0000''), data_nascimento = Stamp (1850, 1, 1, 0),
     cidade = Some (u ''recife  ''), estado = Some (u '' pe''),
     data_cadastro = Text (u ''2023-01-01'') \<rparr>"

definition cliente_limpo :: Cliente where
  "cliente_limpo = \<lparr> id_cliente = 2, nome = Some (u ''Cliente 2''),
     email = Some (u ''ana@example.com''), telefone = Some (u ''1199990000''),
     data_nascimento = NaT, cidade = Some (u ''Recife''), estado = Some (u ''PE''),
     data_cadastro = Text (u ''2023-01-01'') \<rparr>"

definition now_2 :: timestamp where
  "now_2 = (2025, 2, 1, 0)"


text \<open>The rule of the specification for duplicates: of the rows with one identifier a row
  with the latest registration date is kept.  A row without a registration date is
  earlier than any row with one.  A name is blank when it is missing, empty, or made of
  white space.\<close>

definition registration :: "Runtime \<Rightarrow> Cliente \<Rightarrow> timestamp option" where
  "registration rt r = stamp_of (to_datetime rt (data_cadastro r))"

definition later :: "'k::linorder option \<Rightarrow> 'k option \<Rightarrow> bool" where
  "later a b =
     (case a of None \<Rightarrow> False
      | Some x \<Rightarrow> (case b of None \<Rightarrow> True | Some y \<Rightarrow> y < x))"

definition blank :: "Runtime \<Rightarrow> ustring option \<Rightarrow> bool" where
  "blank rt n = (case n of None \<Rightarrow> True | Some x \<Rightarrow> list_all (is_space rt) x)"

text \<open>The scenario of the specification: two rows with identifier 1, registered on
  2023-01-01 and on 2024-06-01, the second with an empty name.\<close>

definition scenario_clientes :: "Cliente list" where
  "scenario_clientes =
     [cliente_1\<lparr>data_cadastro := Text (u ''2023-01-01'')\<rparr>,
      cliente_1\<lparr>data_cadastro := Text (u ''2024-06-01''), nome := Some []\<rparr>]"

text \<open>Seventeen rows with identifier 1 and one registration date, named \<^verbatim>\<open>N1\<close> to
  \<^verbatim>\<open>N17\<close> in the order of the frame.\<close>

definition tied_clientes :: "Cliente list" where
  "tied_clientes = map (\<lambda>n. cliente_1\<lparr>nome := Some (u ''N'' @ str_nat n)\<rparr>) [1..<18]"

text \<open>Four rows: three of identifier 1, of which the one registered last has a name of
  two spaces and one has no registration date, and one of identifier 2.  No two of them
  have the same registration date.\<close>

definition mixed_clientes :: "Cliente list" where
  "mixed_clientes =
     [cliente_1\<lparr>nome := Some (u ''Antigo''), data_cadastro := Stamp (2020, 1, 1, 0)\<rparr>,
      cliente_bruto,
      cliente_1\<lparr>nome := Some (u ''  ''), data_cadastro := Stamp (2024, 3, 1, 0)\<rparr>,
      cliente_1\<lparr>nome := Some (u ''Sem data''), data_cadastro := NaT\<rparr>]"

section \<open>Properties of the alert engine\<close>

subsection \<open>Severity classification\<close>

text \<open>
  Claim C1.  For every call of \<^verbatim>\<open>create_alert\<close> with \<open>affected\<close> and \<open>tot\<close>, let \<open>p\<close> be
  \<open>affected / tot * 100\<close> when \<open>tot\<close> is positive and \<open>0\<close> otherwise (the guard of the
  code is \<^verbatim>\<open>total > 0\<close>).  Below 1 no alert is made and the engine is left as it was.
  From 1 on, one alert is appended to the alert list with status \<^verbatim>\<open>ABERTO\<close> (open) and
  percentage \<open>p\<close>, and its severity is Low on [1, 3), Medium on [3, 5), High on [5, 10)
  and Critical from 10 on; so 1.0 gives Low and 10.0 gives Critical.
\<close>

theorem create_alert_table:
  assumes "p = (if 0 < tot then real_of_int affected / real_of_int tot * 100 else 0)"
    and "r = create_alert now ds iss affected tot det s"
  shows "(p < 1 \<longrightarrow> r = (None, s))
       \<and> (1 \<le> p \<longrightarrow> (\<exists>a. r = (Some a, s\<lparr>alerts := alerts s @ [a]\<rparr>)
               \<and> status a = ''ABERTO'' \<and> percentage a = p
               \<and> affected_records a = affected \<and> total_records a = tot
               \<and> (p < 3 \<longrightarrow> severity a = LOW)
               \<and> (3 \<le> p \<and> p < 5 \<longrightarrow> severity a = MEDIUM)
               \<and> (5 \<le> p \<and> p < 10 \<longrightarrow> severity a = HIGH)
               \<and> (10 \<le> p \<longrightarrow> severity a = CRITICAL)))"
  using assms
  by (auto simp: create_alert_def determine_severity_def Alert_init_def Let_def)

text \<open>The table at 0.999 (no alert), 1 (Low), 3 (Medium), 5 (High) and 10 (Critical).\<close>

theorem create_alert_table_witness:
  "fst (create_alert (2024, 1, 1, 0) ''X'' ''Y'' 999 100000 None AlertSystem_init) = None
   \<and> map severity (alerts (snd (create_alert (2024, 1, 1, 0) ''X'' ''Y'' 1 100 None AlertSystem_init))) = [LOW]
   \<and> map severity (alerts (snd (create_alert (2024, 1, 1, 0) ''X'' ''Y'' 3 100 None AlertSystem_init))) = [MEDIUM]
   \<and> map severity (alerts (snd (create_alert (2024, 1, 1, 0) ''X'' ''Y'' 5 100 None AlertSystem_init))) = [HIGH]
   \<and> map severity (alerts (snd (create_alert (2024, 1, 1, 0) ''X'' ''Y'' 10 100 None AlertSystem_init))) = [CRITICAL]
   \<and> map status (alerts (snd (create_alert (2024, 1, 1, 0) ''X'' ''Y'' 10 100 None AlertSystem_init))) = [''ABERTO'']"
proof -
  let ?c = "\<lambda>a t. create_alert (2024, 1, 1, 0) ''X'' ''Y'' a t None AlertSystem_init"
  have n: "fst (?c 999 100000) = None"
    using create_alert_table [of "999 / 1000" 100000 999 "?c 999 100000" "(2024, 1, 1, 0)" "''X''" "''Y''" None AlertSystem_init]
    by simp
  have l: "map severity (alerts (snd (?c 1 100))) = [LOW]"
    using create_alert_table [of 1 100 1 "?c 1 100" "(2024, 1, 1, 0)" "''X''" "''Y''" None AlertSystem_init]
    by (auto simp: AlertSystem_init_def)
  have m: "map severity (alerts (snd (?c 3 100))) = [MEDIUM]"
    using create_alert_table [of 3 100 3 "?c 3 100" "(2024, 1, 1, 0)" "''X''" "''Y''" None AlertSystem_init]
    by (auto simp: AlertSystem_init_def)
  have h: "map severity (alerts (snd (?c 5 100))) = [HIGH]"
    using create_alert_table [of 5 100 5 "?c 5 100" "(2024, 1, 1, 0)" "''X''" "''Y''" None AlertSystem_init]
    by (auto simp: AlertSystem_init_def)
  have c: "map severity (alerts (snd (?c 10 100))) = [CRITICAL]
         \<and> map status (alerts (snd (?c 10 100))) = [''ABERTO'']"
    using create_alert_table [of 10 100 10 "?c 10 100" "(2024, 1, 1, 0)" "''X''" "''Y''" None AlertSystem_init]
    by (auto simp: AlertSystem_init_def)
  from n l m h c show ?thesis by simp
qed

text \<open>With the percentage of the specification, which is zero only when the total is zero,
  15 of 100 counted negatively would be 15 percent and Critical; the code makes no
  alert.\<close>

theorem create_alert_negative_total_counterexample:
  "spec_percentage (-15) (-100) = 15 \<and>
   create_alert (2024, 1, 1, 0) ''X'' ''Y'' (-15) (-100) None AlertSystem_init = (None, AlertSystem_init)"
  by (simp add: spec_percentage_def create_alert_def determine_severity_def)

subsection \<open>Escalation\<close>

text \<open>
  Claim C7.  For every alert, \<^verbatim>\<open>escalate_alert\<close> returns an escalation whose recipients
  and SLA hours are those of the table: Critical gives CDO, Data Owner and Data Steward
  within 4 hours, High gives Data Owner and Data Steward within 24, Medium gives Data
  Steward within 48, Low gives Data Custodian within 168.  The escalation holds the
  \<^verbatim>\<open>to_dict\<close> snapshot of the alert and the current time, and is appended to the
  escalations file.
\<close>

theorem escalate_alert_table:
  assumes "e = fst (escalate_alert now a s)"
  shows "(severity a = CRITICAL \<longrightarrow> recipients e = [''CDO'', ''Data Owner'', ''Data Steward''] \<and> sla_hours e = 4)
       \<and> (severity a = HIGH \<longrightarrow> recipients e = [''Data Owner'', ''Data Steward''] \<and> sla_hours e = 24)
       \<and> (severity a = MEDIUM \<longrightarrow> recipients e = [''Data Steward''] \<and> sla_hours e = 48)
       \<and> (severity a = LOW \<longrightarrow> recipients e = [''Data Custodian''] \<and> sla_hours e = 168)
       \<and> alert e = to_dict a \<and> escalated_at e = now
       \<and> snd (escalate_alert now a s) = s\<lparr>escalations_file := escalations_file s @ [e]\<rparr>"
  using assms by (cases "severity a") (simp_all add: escalate_alert_def save_escalation_def Let_def)

text \<open>The scenario of the specification: 15 affected of 100 is 15 percent, Critical, and
  its escalation goes to CDO, Data Owner and Data Steward with 4 hours; and one alert of
  each other severity.\<close>

theorem escalate_alert_table_witness:
  "fst (create_alert (2024, 1, 1, 0) ''X'' ''Y'' 15 100 None AlertSystem_init)
     = Some (Alert_init (2024, 1, 1, 0) ''X'' ''Y'' CRITICAL 15 100 None)
   \<and> percentage (Alert_init (2024, 1, 1, 0) ''X'' ''Y'' CRITICAL 15 100 None) = 15
   \<and> recipients (fst (escalate_alert (2024, 1, 2, 0) (Alert_init (2024, 1, 1, 0) ''X'' ''Y'' CRITICAL 15 100 None)
         (snd (create_alert (2024, 1, 1, 0) ''X'' ''Y'' 15 100 None AlertSystem_init))))
     = [''CDO'', ''Data Owner'', ''Data Steward'']
   \<and> sla_hours (fst (escalate_alert (2024, 1, 2, 0) (Alert_init (2024, 1, 1, 0) ''X'' ''Y'' CRITICAL 15 100 None)
         (snd (create_alert (2024, 1, 1, 0) ''X'' ''Y'' 15 100 None AlertSystem_init)))) = 4
   \<and> sla_hours (fst (escalate_alert (2024, 1, 2, 0) (Alert_init (2024, 1, 1, 0) ''X'' ''Y'' HIGH 7 100 None) AlertSystem_init)) = 24
   \<and> sla_hours (fst (escalate_alert (2024, 1, 2, 0) (Alert_init (2024, 1, 1, 0) ''X'' ''Y'' MEDIUM 4 100 None) AlertSystem_init)) = 48
   \<and> sla_hours (fst (escalate_alert (2024, 1, 2, 0) (Alert_init (2024, 1, 1, 0) ''X'' ''Y'' LOW 2 100 None) AlertSystem_init)) = 168"
proof -
  let ?a = "\<lambda>sev n. Alert_init (2024, 1, 1, 0) ''X'' ''Y'' sev n 100 None"
  let ?s = "snd (create_alert (2024, 1, 1, 0) ''X'' ''Y'' 15 100 None AlertSystem_init)"
  have 0: "fst (create_alert (2024, 1, 1, 0) ''X'' ''Y'' 15 100 None AlertSystem_init) = Some (?a CRITICAL 15)
           \<and> percentage (?a CRITICAL 15) = 15"
    by (simp add: create_alert_def determine_severity_def Alert_init_def Let_def)
  have 1: "severity (?a CRITICAL 15) = CRITICAL" "severity (?a HIGH 7) = HIGH"
    "severity (?a MEDIUM 4) = MEDIUM" "severity (?a LOW 2) = LOW"
    by (simp_all add: Alert_init_def)
  show ?thesis
    using 0 1 escalate_alert_table [OF refl, of "?a CRITICAL 15" "(2024, 1, 2, 0)" ?s]
      escalate_alert_table [OF refl, of "?a HIGH 7" "(2024, 1, 2, 0)" AlertSystem_init]
      escalate_alert_table [OF refl, of "?a MEDIUM 4" "(2024, 1, 2, 0)" AlertSystem_init]
      escalate_alert_table [OF refl, of "?a LOW 2" "(2024, 1, 2, 0)" AlertSystem_init]
    by simp
qed

subsection \<open>The status of an alert\<close>

lemma create_alert_alerts:
  "alerts (snd (create_alert now ds iss affected tot det s)) = alerts s
   \<or> (\<exists>sev. alerts (snd (create_alert now ds iss affected tot det s))
         = alerts s @ [Alert_init now ds iss sev affected tot det])"
  by (cases "determine_severity (if tot > 0 then real_of_int affected / real_of_int tot * 100 else 0)")
    (auto simp: create_alert_def Let_def)

lemma status_Alert_init: "status (Alert_init now ds iss sev affected tot det) = ''ABERTO''"
  by (simp add: Alert_init_def)

lemma create_alert_open: "all_open s \<Longrightarrow> all_open (snd (create_alert now ds iss affected tot det s))"
  using create_alert_alerts [of now ds iss affected tot det s]
  by (auto simp: all_open_def status_Alert_init)

lemma create_alert_file:
  "escalations_file (snd (create_alert now ds iss affected tot det s)) = escalations_file s"
  by (simp add: create_alert_def Let_def split: option.splits)

lemma escalate_alert_alerts: "alerts (snd (escalate_alert now a s)) = alerts s"
  by (simp add: escalate_alert_def save_escalation_def Let_def split: prod.splits)

lemma escalate_alert_open: "all_open s \<Longrightarrow> all_open (snd (escalate_alert now a s))"
  by (simp add: all_open_def escalate_alert_alerts)

lemma analyze_checkpoints_open: "all_open s \<Longrightarrow> all_open (analyze_checkpoints now cs s)"
  by (induction now cs s rule: analyze_checkpoints.induct) (simp_all add: Let_def create_alert_open)

lemma analyze_checkpoints_file:
  "escalations_file (analyze_checkpoints now cs s) = escalations_file s"
  by (induction now cs s rule: analyze_checkpoints.induct) (simp_all add: Let_def create_alert_file)

lemma analyze_quality_results_open: "all_open s \<Longrightarrow> all_open (analyze_quality_results now results s)"
  by (simp add: analyze_quality_results_def Let_def create_alert_open analyze_checkpoints_open)

lemma analyze_quality_results_file:
  "escalations_file (analyze_quality_results now results s) = escalations_file s"
  by (simp add: analyze_quality_results_def Let_def create_alert_file analyze_checkpoints_file)

lemma escalate_all_alerts: "alerts (escalate_all now xs s) = alerts s"
  by (induction now xs s rule: escalate_all.induct) (simp_all add: escalate_alert_alerts)

lemma escalate_alert_file:
  "escalations_file (snd (escalate_alert now a s))
     = escalations_file s @ [fst (escalate_alert now a s)]"
  by (simp add: escalate_alert_def save_escalation_def Let_def split: prod.splits)

lemma escalate_alert_snapshot:
  "d_severity (alert (fst (escalate_alert now a s))) = severity a
   \<and> d_status (alert (fst (escalate_alert now a s))) = status a"
  by (simp add: escalate_alert_def to_dict_def Let_def split: prod.splits)

lemma escalate_all_file:
  "list_all (\<lambda>a. status a = ''ABERTO'') xs \<Longrightarrow>
   \<exists>es. escalations_file (escalate_all now xs s) = escalations_file s @ es
      \<and> list_all (\<lambda>e. d_severity (alert e) \<in> {CRITICAL, HIGH} \<and> d_status (alert e) = ''ABERTO'') es"
proof (induction now xs s rule: escalate_all.induct)
  case (1 now s)
  then show ?case by simp
next
  case (2 now a rest s)
  show ?case
  proof (cases "severity a \<in> set [CRITICAL, HIGH]")
    case True
    from 2 True obtain es where es:
      "escalations_file (escalate_all now rest (snd (escalate_alert now a s)))
         = escalations_file (snd (escalate_alert now a s)) @ es"
      "list_all (\<lambda>e. d_severity (alert e) \<in> {CRITICAL, HIGH} \<and> d_status (alert e) = ''ABERTO'') es"
      by auto
    let ?e = "fst (escalate_alert now a s)"
    have "escalations_file (escalate_all now (a # rest) s) = escalations_file s @ (?e # es)"
      using True es(1) by (simp add: escalate_alert_file)
    moreover have "d_severity (alert ?e) \<in> {CRITICAL, HIGH} \<and> d_status (alert ?e) = ''ABERTO''"
      using True 2(3) by (simp add: escalate_alert_snapshot)
    ultimately show ?thesis using es(2) by (intro exI [of _ "?e # es"]) simp
  next
    case False
    with 2 show ?thesis by auto
  qed
qed

lemma reachable_open: "reachable s \<Longrightarrow> all_open s"
proof (induction rule: reachable.induct)
  case reach_init
  then show ?case by (simp add: all_open_def AlertSystem_init_def)
next
  case (reach_create s now ds iss affected tot det)
  then show ?case by (simp add: create_alert_open)
next
  case (reach_escalate s now a)
  then show ?case by (simp add: escalate_alert_open)
next
  case (reach_analyze s now results)
  then show ?case by (simp add: analyze_quality_results_open)
next
  case (reach_process s now results)
  then have "all_open (analyze_quality_results now results s)"
    by (simp add: analyze_quality_results_open)
  then show ?case
    by (simp add: process_alerts_def Let_def save_alerts_def all_open_def escalate_all_alerts)
qed

text \<open>
  Claim C8.  Every alert is created with status \<^verbatim>\<open>ABERTO\<close> (open), and no operation of
  the alert engine changes it: in every state the engine can reach, all stored alerts are
  open; \<^verbatim>\<open>escalate_alert\<close> leaves the alert list as it was and its snapshot carries the
  status of the alert; and the escalations that \<^verbatim>\<open>process_alerts\<close> writes are of High or
  Critical alerts only, each still open.  There is no escalated status.
\<close>

theorem alert_status_stays_open:
  assumes "reachable s"
  shows "list_all (\<lambda>a. status a = ''ABERTO'') (alerts s)
       \<and> alerts (snd (escalate_alert now a s)) = alerts s
       \<and> d_status (alert (fst (escalate_alert now a s))) = status a
       \<and> (\<exists>es. escalations_file (snd (process_alerts now results s)) = escalations_file s @ es
             \<and> list_all (\<lambda>e. d_severity (alert e) \<in> {CRITICAL, HIGH}
                               \<and> d_status (alert e) = ''ABERTO'') es)"
proof -
  have o: "all_open s" using assms by (rule reachable_open)
  let ?s1 = "analyze_quality_results now results s"
  have "all_open ?s1" using o by (rule analyze_quality_results_open)
  then have "list_all (\<lambda>a. status a = ''ABERTO'') (alerts ?s1)" by (simp add: all_open_def)
  from escalate_all_file [OF this, of now ?s1]
  have "\<exists>es. escalations_file (snd (process_alerts now results s)) = escalations_file s @ es
             \<and> list_all (\<lambda>e. d_severity (alert e) \<in> {CRITICAL, HIGH}
                               \<and> d_status (alert e) = ''ABERTO'') es"
    by (simp add: process_alerts_def Let_def save_alerts_def analyze_quality_results_file)
  then show ?thesis
    using o by (simp add: all_open_def escalate_alert_alerts escalate_alert_snapshot)
qed

lemma process_alerts_alerts:
  "alerts (snd (process_alerts now results s)) = alerts (analyze_quality_results now results s)"
  by (simp add: process_alerts_def Let_def save_alerts_def escalate_all_alerts)

lemma mock_analyze:
  "map (\<lambda>a. (dataset a, severity a, status a))
     (alerts (analyze_quality_results (2024, 1, 1, 0) mock_results AlertSystem_init))
     = [(''clientes'', CRITICAL, ''ABERTO''), (''vendas'', CRITICAL, ''ABERTO''),
        (''GERAL'', CRITICAL, ''ABERTO'')]"
  by (simp add: mock_results_def AlertSystem_init_def Let_def
    analyze_quality_results_def create_alert_def determine_severity_def
    Alert_init_def replace_def)

text \<open>The report of \<^verbatim>\<open>main\<close>: three Critical alerts, all open after
  \<^verbatim>\<open>process_alerts\<close> has escalated them.\<close>

theorem alert_status_stays_open_witness:
  "reachable (snd (process_alerts (2024, 1, 1, 0) mock_results AlertSystem_init))
   \<and> map (\<lambda>a. (dataset a, severity a, status a))
       (alerts (snd (process_alerts (2024, 1, 1, 0) mock_results AlertSystem_init)))
     = [(''clientes'', CRITICAL, ''ABERTO''), (''vendas'', CRITICAL, ''ABERTO''),
        (''GERAL'', CRITICAL, ''ABERTO'')]
   \<and> list_all (\<lambda>a. status a = ''ABERTO'')
       (alerts (snd (process_alerts (2024, 1, 1, 0) mock_results AlertSystem_init)))"
proof -
  have r: "reachable (snd (process_alerts (2024, 1, 1, 0) mock_results AlertSystem_init))"
    by (rule reach_process [OF reach_init])
  show ?thesis
    using r alert_status_stays_open [OF r] mock_analyze
    by (simp add: process_alerts_alerts)
qed

text \<open>Escalating a Critical alert: the stored alert and the snapshot both stay open.\<close>

theorem escalate_alert_keeps_status_counterexample:
  "fst (create_alert (2024, 1, 1, 0) ''X'' ''Y'' 15 100 None AlertSystem_init)
     = Some (Alert_init (2024, 1, 1, 0) ''X'' ''Y'' CRITICAL 15 100 None)
   \<and> map status (alerts (snd (escalate_alert (2024, 1, 2, 0)
         (Alert_init (2024, 1, 1, 0) ''X'' ''Y'' CRITICAL 15 100 None)
         (snd (create_alert (2024, 1, 1, 0) ''X'' ''Y'' 15 100 None AlertSystem_init)))))
     = [''ABERTO'']
   \<and> d_status (alert (fst (escalate_alert (2024, 1, 2, 0)
         (Alert_init (2024, 1, 1, 0) ''X'' ''Y'' CRITICAL 15 100 None)
         (snd (create_alert (2024, 1, 1, 0) ''X'' ''Y'' 15 100 None AlertSystem_init)))))
     = ''ABERTO''"
  by (simp add: create_alert_def determine_severity_def Alert_init_def Let_def
      escalate_alert_def save_escalation_def AlertSystem_init_def to_dict_def)

section \<open>Properties of the cleaner\<close>

subsection \<open>Masks\<close>

lemma zip_map_same: "zip df (map P df) = map (\<lambda>r. (r, P r)) df"
  by (induction df) simp_all

lemma loc_assign_map: "loc_assign (map P df) f df = map (\<lambda>r. if P r then f r else r) df"
  by (simp add: loc_assign_def zip_map_same)

lemma select_rows_map: "select_rows (map P df) df = filter P df"
  by (simp add: select_rows_def zip_map_same filter_map comp_def)

lemma mask_sum_zero: "mask_sum (map P df) = 0 \<longleftrightarrow> (\<forall>r \<in> set df. \<not> P r)"
  by (simp add: mask_sum_def filter_map filter_empty_conv)

lemma guarded_assign:
  "(if mask_sum (map P df) > 0 then loc_assign (map P df) f df else df)
     = map (\<lambda>r. if P r then f r else r) df"
proof (cases "mask_sum (map P df) > 0")
  case True
  then show ?thesis by (simp add: loc_assign_map)
next
  case False
  then have "\<forall>r \<in> set df. \<not> P r" by (simp add: mask_sum_zero)
  then have "map (\<lambda>r. if P r then f r else r) df = df" by (simp add: map_idI)
  with False show ?thesis by simp
qed

lemma guarded_select:
  "(if mask_sum (map P df) > 0 then select_rows (map Not (map P df)) df else df)
     = filter (\<lambda>r. \<not> P r) df"
proof (cases "mask_sum (map P df) > 0")
  case True
  have "map Not (map P df) = map (\<lambda>r. \<not> P r) df" by simp
  with True show ?thesis by (simp only: select_rows_map if_True)
next
  case False
  then have "\<forall>r \<in> set df. \<not> P r" by (simp add: mask_sum_zero)
  then have "filter (\<lambda>r. \<not> P r) df = df" by simp
  with False show ?thesis by simp
qed

subsection \<open>Steps as maps and filters\<close>

lemma vendas_validar_clientes_filter:
  "vendas_validar_clientes dc df = filter (\<lambda>v. venda_id_cliente v \<in> id_cliente ` set dc) df"
  unfolding vendas_validar_clientes_def Let_def
  by (subst guarded_select) simp

lemma vendas_validar_produtos_filter:
  "vendas_validar_produtos dp df = filter (\<lambda>v. venda_id_produto v \<in> id_produto ` set dp) df"
  unfolding vendas_validar_produtos_def Let_def
  by (subst guarded_select) simp

lemma logistica_validar_vendas_filter:
  "logistica_validar_vendas dv df = filter (\<lambda>e. entrega_id_venda e \<in> id_venda ` set dv) df"
  unfolding logistica_validar_vendas_def Let_def
  by (subst guarded_select) simp

lemma vendas_corrigir_quantidade_map:
  "vendas_corrigir_quantidade df = map corrigir_quantidade_row df"
proof -
  have "map (\<lambda>(v, nc). fle (quantidade v) (Finite 0) \<and> nc)
          (zip df (map (\<lambda>v. venda_status v \<noteq> Some (u ''Cancelada'')) df))
        = map (\<lambda>v. fle (quantidade v) (Finite 0) \<and> venda_status v \<noteq> Some (u ''Cancelada'')) df"
    by (simp add: zip_map_same)
  then show ?thesis
    unfolding vendas_corrigir_quantidade_def Let_def corrigir_quantidade_row_def
    by (simp only: guarded_assign)
qed

lemma vendas_recalcular_total_map:
  "vendas_recalcular_total rt df = map (recalcular_total_row rt) df"
proof -
  have "map (\<lambda>d. flt (Finite tolerance) d)
          (map (\<lambda>v. fabs (fsub (round_double rt) (valor_total v) (valor_total_calculado rt v))) df)
        = map (inconsistent_row rt) df"
    by (simp add: inconsistent_row_def)
  then show ?thesis
    unfolding vendas_recalcular_total_def Let_def recalcular_total_row_def
    by (simp only: guarded_assign)
qed

lemma vendas_validar_data_map:
  "vendas_validar_data rt now df = map (validar_data_row rt now) df"
proof -
  let ?conv = "\<lambda>v. v\<lparr>data_venda := to_datetime rt (data_venda v)\<rparr>"
  let ?P = "\<lambda>v. case stamp_of (data_venda v) of None \<Rightarrow> False | Some t \<Rightarrow> t > now"
  have "vendas_validar_data rt now df
        = map (\<lambda>v. if ?P v then v\<lparr>data_venda := Stamp now\<rparr> else v) (map ?conv df)"
    unfolding vendas_validar_data_def Let_def by (simp only: guarded_assign)
  also have "\<dots> = map (validar_data_row rt now) df"
    by (auto simp: validar_data_row_def stamp_of_def split: date_cell.splits)
  finally show ?thesis .
qed

subsection \<open>Sales\<close>

lemma clean_vendas_map:
  "clean_vendas rt now df dc dp
     = map (clean_venda_row rt now)
         (filter (\<lambda>v. venda_id_produto v \<in> id_produto ` set dp)
            (filter (\<lambda>v. venda_id_cliente v \<in> id_cliente ` set dc) df))"
  by (simp add: clean_vendas_def vendas_validar_data_map vendas_recalcular_total_map
      vendas_corrigir_quantidade_map vendas_validar_produtos_filter
      vendas_validar_clientes_filter clean_venda_row_def Let_def)

lemma clean_venda_row_ids:
  "id_venda (clean_venda_row rt now v) = id_venda v"
  "venda_id_cliente (clean_venda_row rt now v) = venda_id_cliente v"
  "venda_id_produto (clean_venda_row rt now v) = venda_id_produto v"
  by (simp_all add: clean_venda_row_def Let_def validar_data_row_def recalcular_total_row_def
      corrigir_quantidade_row_def split: date_cell.splits)

lemma clean_venda_row_values:
  "quantidade (clean_venda_row rt now v) = quantidade (corrigir_quantidade_row v)"
  "valor_unitario (clean_venda_row rt now v) = valor_unitario v"
  "valor_total (clean_venda_row rt now v)
     = valor_total (recalcular_total_row rt (corrigir_quantidade_row v))"
  by (simp_all add: clean_venda_row_def Let_def validar_data_row_def recalcular_total_row_def
      corrigir_quantidade_row_def split: date_cell.splits)

lemma tolerance_pos: "0 \<le> tolerance"
  by (simp add: tolerance_def)

lemma recalcular_total_row_ok:
  assumes "round_ok rt"
    and "quantidade w = Finite q" and "valor_unitario w = Finite p"
    and "valor_total (recalcular_total_row rt w) = Finite t"
  shows "fle (fabs (fsub (round_double rt) (Finite t) (fmul (round_double rt) (Finite q) (Finite p))))
           (Finite tolerance)"
proof -
  have n: "\<And>x. round_double rt x \<noteq> NaN" and z: "round_double rt 0 = Finite 0"
    using assms(1) by (simp_all add: round_ok_def)
  have c: "valor_total_calculado rt w = round_double rt (q * p)"
    by (simp add: valor_total_calculado_def fmul_def assms(2,3))
  have m: "fmul (round_double rt) (Finite q) (Finite p) = round_double rt (q * p)"
    by (simp add: fmul_def)
  show ?thesis
  proof (cases "inconsistent_row rt w")
    case True
    then have "round_double rt (q * p) = Finite t"
      using assms(4) by (simp add: recalcular_total_row_def c)
    then show ?thesis
      unfolding m by (simp add: fsub_def fabs_def fle_def z tolerance_pos)
  next
    case False
    then have t: "valor_total w = Finite t"
      using assms(4) by (simp add: recalcular_total_row_def)
    have f: "\<not> flt (Finite tolerance)
                 (fabs (fsub (round_double rt) (Finite t) (round_double rt (q * p))))"
      using False by (simp add: inconsistent_row_def t c)
    show ?thesis
    proof (cases "round_double rt (q * p)")
      case (Finite c')
      show ?thesis
      proof (cases "round_double rt (t - c')")
        case (Finite d)
        with f \<open>round_double rt (q * p) = Finite c'\<close> show ?thesis
          unfolding m by (simp add: fsub_def fabs_def flt_def fle_def)
      next
        case PosInf
        with f \<open>round_double rt (q * p) = Finite c'\<close> show ?thesis
          by (simp add: fsub_def fabs_def flt_def)
      next
        case NegInf
        with f \<open>round_double rt (q * p) = Finite c'\<close> show ?thesis
          by (simp add: fsub_def fabs_def flt_def)
      next
        case NaN
        with n show ?thesis by blast
      qed
    next
      case PosInf
      with f show ?thesis by (simp add: fsub_def fabs_def flt_def)
    next
      case NegInf
      with f show ?thesis by (simp add: fsub_def fabs_def flt_def)
    next
      case NaN
      with n show ?thesis by blast
    qed
  qed
qed

lemma clean_venda_row_total:
  assumes "round_ok rt"
    and "is_finite (quantidade (clean_venda_row rt now v))"
    and "is_finite (valor_unitario (clean_venda_row rt now v))"
    and "is_finite (valor_total (clean_venda_row rt now v))"
  shows "total_invariant rt (clean_venda_row rt now v)"
proof -
  let ?w = "corrigir_quantidade_row v"
  obtain q where q: "quantidade ?w = Finite q"
    using assms(2) by (auto simp: clean_venda_row_values is_finite_def split: float64.splits)
  have pw: "valor_unitario ?w = valor_unitario v"
    by (simp add: corrigir_quantidade_row_def)
  obtain p where p: "valor_unitario ?w = Finite p"
    using assms(3) unfolding pw
    by (auto simp: clean_venda_row_values is_finite_def split: float64.splits)
  obtain t where t: "valor_total (recalcular_total_row rt ?w) = Finite t"
    using assms(4) by (auto simp: clean_venda_row_values is_finite_def split: float64.splits)
  have p': "valor_unitario v = Finite p"
    using p unfolding pw .
  show ?thesis
    using recalcular_total_row_ok [OF assms(1) q p t]
    by (simp add: total_invariant_def clean_venda_row_values q p' t)
qed

subsection \<open>The runtime of the examples\<close>

lemma overflow_threshold_big: "2 ^ 64 < overflow_threshold"
  by (simp add: overflow_threshold_def)

lemma round_1_exact: "- (2 ^ 64) \<le> x \<Longrightarrow> x \<le> 2 ^ 64 \<Longrightarrow> round_1 x = Finite x"
  using overflow_threshold_big by (simp add: round_1_def)

lemma round_ok_runtime_1: "round_ok runtime_1"
  using overflow_threshold_big by (simp add: round_ok_def runtime_1_def round_1_def)

lemma runtime_1_fields:
  "to_lower runtime_1 = to_lower_1" "to_upper runtime_1 = to_upper_1"
  "to_title runtime_1 = to_upper_1" "is_cased runtime_1 = is_cased_1"
  "is_case_ignorable runtime_1 = is_case_ignorable_1" "is_space runtime_1 = is_space_1"
  "is_decimal runtime_1 = ascii_digit" "parse_datetime runtime_1 = parse_scenario"
  "argsort runtime_1 = argsort_1" "round_double runtime_1 = round_1"
  by (simp_all add: runtime_1_def)

lemma runtime_2_fields:
  "to_lower runtime_2 = to_lower_1" "to_upper runtime_2 = to_upper_1"
  "to_title runtime_2 = to_upper_1" "is_cased runtime_2 = is_cased_1"
  "is_case_ignorable runtime_2 = is_case_ignorable_1" "is_space runtime_2 = is_space_1"
  "is_decimal runtime_2 = ascii_digit" "parse_datetime runtime_2 = parse_scenario"
  "argsort runtime_2 = argsort_2" "round_double runtime_2 = round_1"
  by (simp_all add: runtime_2_def runtime_1_def)

lemmas ascii_defs = ascii_lower_def ascii_upper_def ascii_space_def ascii_letter_def
  ascii_upper_letter_def ascii_lower_letter_def ascii_digit_def

lemmas tables_1 = runtime_1_fields to_lower_1_def to_upper_1_def is_cased_1_def
  is_case_ignorable_1_def is_space_1_def ascii_defs

lemmas string_defs = u_def lower_def upper_def title_def strip_def lstrip_def rstrip_def
  lower_at_def digits_only_def

lemma status_Pendente: "strip runtime_1 (title runtime_1 (u ''Pendente'')) = u ''Pendente''"
  by (simp add: string_defs tables_1)
subsection \<open>Customers, products and deliveries row by row\<close>

lemma clean_clientes_map:
  "clean_clientes rt now df
     = map (clean_cliente_row rt now) (clientes_remover_duplicatas rt df)"
proof -
  let ?d = "clientes_remover_duplicatas rt df"
  have 4: "\<And>xs. clientes_validar_email xs
             = map (\<lambda>r. if \<not> (case email r of None \<Rightarrow> False | Some x \<Rightarrow> email_match x)
                          then r\<lparr>email := None\<rparr> else r) xs"
    unfolding clientes_validar_email_def Let_def by (simp only: guarded_assign)
  have 7: "\<And>xs. clientes_preencher_nomes rt xs
             = map (\<lambda>r. if nome r = None \<or> map_option (strip rt) (nome r) = Some []
                          then r\<lparr>nome := Some (u ''Cliente '' @ str_int (id_cliente r))\<rparr>
                          else r) xs"
    unfolding clientes_preencher_nomes_def Let_def by (simp only: guarded_assign)
  have 8: "\<And>xs. clientes_validar_nascimento rt now xs
             = map (\<lambda>r. r\<lparr>data_nascimento := clean_nascimento rt now (data_nascimento r)\<rparr>) xs"
  proof -
    fix xs
    have "clientes_validar_nascimento rt now xs
          = map (\<lambda>r. if (case stamp_of (data_nascimento r) of None \<Rightarrow> False
                             | Some t \<Rightarrow> year t < 1900 \<or> year t > year now)
                       then r\<lparr>data_nascimento := NaT\<rparr> else r)
              (map (\<lambda>r. r\<lparr>data_nascimento := to_datetime rt (data_nascimento r)\<rparr>) xs)"
      unfolding clientes_validar_nascimento_def Let_def by (simp only: guarded_assign)
    also have "\<dots> = map (\<lambda>r. r\<lparr>data_nascimento := clean_nascimento rt now (data_nascimento r)\<rparr>) xs"
      by (auto simp: clean_nascimento_def stamp_of_def split: date_cell.splits)
    finally show "clientes_validar_nascimento rt now xs
             = map (\<lambda>r. r\<lparr>data_nascimento := clean_nascimento rt now (data_nascimento r)\<rparr>) xs" .
  qed
  show ?thesis
    unfolding clean_clientes_def 4 7 8 clientes_padronizar_cidade_def
      clientes_padronizar_estado_def clientes_normalizar_email_def
      clientes_padronizar_telefone_def
    by (auto simp: clean_cliente_row_def clean_telefone_def clean_email_def fill_nome_def
        split: option.splits)
qed

lemma clean_produtos_map:
  "clean_produtos rt df = map (clean_produto_row rt) (produtos_remover_duplicatas df)"
proof -
  have 2: "\<And>xs. produtos_corrigir_precos xs
             = map (\<lambda>r. if flt (preco r) (Finite 0) then r\<lparr>preco := fabs (preco r)\<rparr> else r) xs"
    unfolding produtos_corrigir_precos_def Let_def by (simp only: guarded_assign)
  have 3: "\<And>xs. produtos_validar_estoque xs
             = map (\<lambda>r. if estoque r < 0 then r\<lparr>estoque := 0\<rparr> else r) xs"
    unfolding produtos_validar_estoque_def Let_def by (simp only: guarded_assign)
  have 4: "\<And>xs. produtos_preencher_categorias rt xs
             = map (\<lambda>r. if categoria r = None \<or> map_option (strip rt) (categoria r) = Some []
                          then r\<lparr>categoria := Some (u ''Sem Categoria'')\<rparr> else r) xs"
    unfolding produtos_preencher_categorias_def Let_def by (simp only: guarded_assign)
  show ?thesis
    unfolding clean_produtos_def 2 3 4
    by (auto simp: clean_produto_row_def preencher_categoria_def split: option.splits)
qed

lemma clean_logistica_map:
  "clean_logistica rt df dv
     = map (clean_entrega_row rt) (filter (\<lambda>e. entrega_id_venda e \<in> id_venda ` set dv) df)"
  by (simp add: clean_logistica_def logistica_validar_vendas_filter clean_entrega_row_def)

subsection \<open>Duplicates\<close>

lemma select_rows_Cons:
  "select_rows (b # m) (r # df) = (if b then [r] else []) @ select_rows m df"
  by (simp add: select_rows_def)

lemma select_rows_Nil: "select_rows m [] = []"
  by (simp add: select_rows_def)

lemma select_rows_subset: "set (select_rows m df) \<subseteq> set df"
  by (auto simp: select_rows_def dest: set_zip_leftD)

lemma select_rows_distinct: "distinct (map f df) \<Longrightarrow> distinct (map f (select_rows m df))"
proof (induction df arbitrary: m)
  case Nil
  then show ?case by (simp add: select_rows_Nil)
next
  case (Cons r df)
  show ?case
  proof (cases m)
    case Nil
    then show ?thesis by (simp add: select_rows_def)
  next
    case (Cons b m')
    have "f r \<notin> f ` set (select_rows m' df)"
      using Cons.prems select_rows_subset [of m' df] by auto
    then show ?thesis
      using Cons.IH [of m'] Cons.prems Cons by (simp add: select_rows_Cons)
  qed
qed

lemma dd_keys:
  "key ` set (select_rows (map Not (duplicated_from seen (map key df))) df)
     = key ` set df - set seen"
proof (induction df arbitrary: seen)
  case Nil
  then show ?case by (simp add: select_rows_Nil)
next
  case (Cons r df)
  have "key ` set (select_rows (map Not (duplicated_from seen (map key (r # df)))) (r # df))
        = (if key r \<in> set seen then {} else {key r}) \<union> (key ` set df - set (key r # seen))"
    using Cons [of "key r # seen"] by (simp add: select_rows_Cons image_Un)
  also have "\<dots> = key ` set (r # df) - set seen" by auto
  finally show ?case .
qed

lemma dd_distinct:
  "distinct (map key (select_rows (map Not (duplicated_from seen (map key df))) df))"
proof (induction df arbitrary: seen)
  case Nil
  then show ?case by (simp add: select_rows_Nil)
next
  case (Cons r df)
  have "key r \<notin> key ` set (select_rows (map Not (duplicated_from (key r # seen) (map key df))) df)"
    by (simp add: dd_keys)
  then show ?case using Cons [of "key r # seen"] by (simp add: select_rows_Cons)
qed

lemma dd_filter:
  "filter (\<lambda>r. key r = k) (select_rows (map Not (duplicated_from seen (map key df))) df)
     = (if k \<in> set seen then [] else take 1 (filter (\<lambda>r. key r = k) df))"
  by (induction df arbitrary: seen) (auto simp: select_rows_Nil select_rows_Cons)

lemma duplicated_from_zero:
  "mask_sum (duplicated_from seen ks) = 0 \<longleftrightarrow> distinct ks \<and> set ks \<inter> set seen = {}"
  by (induction ks arbitrary: seen) (auto simp: mask_sum_def)

lemma drop_duplicates_distinct: "distinct (map key (drop_duplicates key df))"
  by (simp add: drop_duplicates_def duplicated_def dd_distinct)

lemma drop_duplicates_keys: "key ` set (drop_duplicates key df) = key ` set df"
  by (simp add: drop_duplicates_def duplicated_def dd_keys)

lemma drop_duplicates_filter:
  "filter (\<lambda>r. key r = k) (drop_duplicates key df) = take 1 (filter (\<lambda>r. key r = k) df)"
  by (simp add: drop_duplicates_def duplicated_def dd_filter)

lemma no_duplicates: "mask_sum (duplicated ks) > 0 \<longleftrightarrow> \<not> distinct ks"
  using duplicated_from_zero [of "[]" ks] by (auto simp: duplicated_def)

subsection \<open>Sorting by date\<close>

lemma argsort_ok_set:
  assumes "argsort_ok sorter"
  shows "set (map (\<lambda>i. xs ! i) (sorter (map f xs))) = set xs"
proof -
  have "set (sorter (map f xs)) = {..<length xs}"
    using assms by (simp add: argsort_ok_def)
  then have "set (map (\<lambda>i. xs ! i) (sorter (map f xs))) = (\<lambda>i. xs ! i) ` {..<length xs}"
    by simp
  also have "\<dots> = set xs"
    by (auto simp: set_conv_nth)
  finally show ?thesis .
qed

lemma sort_values_desc_set:
  assumes "argsort_ok sorter"
  shows "set (sort_values_desc sorter key df) = set df"
proof -
  let ?N = "rev (filter (\<lambda>r. key r \<noteq> None) df)"
  have "set (map (\<lambda>i. ?N ! i) (sorter (map (\<lambda>r. the (key r)) ?N))) = set ?N"
    using assms by (rule argsort_ok_set)
  then have "set (sort_values_desc sorter key df)
               = set (filter (\<lambda>r. key r \<noteq> None) df) \<union> set (filter (\<lambda>r. key r = None) df)"
    by (simp add: sort_values_desc_def Let_def)
  also have "\<dots> = set df" by auto
  finally show ?thesis .
qed

lemma later_irrefl: "\<not> later a a"
  by (simp add: later_def split: option.splits)

lemma sort_values_desc_sorted:
  assumes "argsort_ok sorter"
  shows "sorted_wrt (\<lambda>a b. \<not> later (key b) (key a)) (sort_values_desc sorter key df)"
proof -
  let ?N = "rev (filter (\<lambda>r. key r \<noteq> None) df)"
  let ?ks = "map (\<lambda>r. the (key r)) ?N"
  let ?ix = "sorter ?ks"
  have ix: "set ?ix = {..<length ?N}" and s: "sorted (map (\<lambda>i. ?ks ! i) ?ix)"
    using assms by (simp_all add: argsort_ok_def)
  have k: "\<And>i. i < length ?N \<Longrightarrow> key (?N ! i) = Some (?ks ! i)"
  proof -
    fix i assume i: "i < length ?N"
    then have "?N ! i \<in> set ?N" by (rule nth_mem)
    then have "key (?N ! i) \<noteq> None" by simp
    moreover have "?ks ! i = the (key (?N ! i))" using i by simp
    ultimately show "key (?N ! i) = Some (?ks ! i)" by simp
  qed
  have "sorted_wrt (\<lambda>i j. ?ks ! i \<le> ?ks ! j) ?ix"
    using s by (simp add: sorted_wrt_map)
  then have "sorted_wrt (\<lambda>i j. \<not> later (key (?N ! i)) (key (?N ! j))) ?ix"
  proof (rule sorted_wrt_mono_rel [rotated])
    fix i j assume "i \<in> set ?ix" "j \<in> set ?ix" "?ks ! i \<le> ?ks ! j"
    then have "i < length ?N" "j < length ?N" "?ks ! i \<le> ?ks ! j"
      unfolding ix by simp_all
    then show "\<not> later (key (?N ! i)) (key (?N ! j))"
      by (simp only: k later_def option.case)
  qed
  then have 1: "sorted_wrt (\<lambda>a b. \<not> later (key b) (key a)) (rev (map (\<lambda>i. ?N ! i) ?ix))"
    by (simp add: sorted_wrt_rev sorted_wrt_map)
  have 2: "sorted_wrt (\<lambda>a b. \<not> later (key b) (key a)) (filter (\<lambda>r. key r = None) df)"
    by (rule sorted_wrt_mono_rel [where P = "\<lambda>a b. True"]) (simp_all add: later_def)
  have 3: "\<forall>a \<in> set (rev (map (\<lambda>i. ?N ! i) ?ix)). \<forall>b \<in> set (filter (\<lambda>r. key r = None) df).
             \<not> later (key b) (key a)"
    by (simp add: later_def)
  show ?thesis
    unfolding sort_values_desc_def Let_def sorted_wrt_append
    using 1 2 3 by blast
qed

subsection \<open>Identifiers\<close>

lemma clean_cliente_row_id [simp]: "id_cliente (clean_cliente_row rt now r) = id_cliente r"
  by (simp add: clean_cliente_row_def)

lemma clean_produto_row_id [simp]: "id_produto (clean_produto_row rt r) = id_produto r"
  by (simp add: clean_produto_row_def)

lemma clean_entrega_row_ids [simp]:
  "id_entrega (clean_entrega_row rt e) = id_entrega e"
  "entrega_id_venda (clean_entrega_row rt e) = entrega_id_venda e"
  by (simp_all add: clean_entrega_row_def)

lemma clientes_remover_duplicatas_distinct:
  "distinct (map id_cliente (clientes_remover_duplicatas rt df))"
  by (simp add: clientes_remover_duplicatas_def Let_def no_duplicates drop_duplicates_distinct)

lemma clientes_remover_duplicatas_ids:
  assumes "argsort_ok (argsort rt)"
  shows "id_cliente ` set (clientes_remover_duplicatas rt df) = id_cliente ` set df"
  by (auto simp: clientes_remover_duplicatas_def Let_def drop_duplicates_keys
      sort_values_desc_set [OF assms] image_iff)

lemma clientes_remover_duplicatas_same:
  "distinct (map id_cliente df) \<Longrightarrow> clientes_remover_duplicatas rt df = df"
  by (simp add: clientes_remover_duplicatas_def Let_def no_duplicates)

lemma clean_clientes_distinct: "distinct (map id_cliente (clean_clientes rt now df))"
  by (simp add: clean_clientes_map comp_def clientes_remover_duplicatas_distinct)

lemma clean_clientes_ids:
  assumes "argsort_ok (argsort rt)"
  shows "id_cliente ` set (clean_clientes rt now df) = id_cliente ` set df"
proof -
  have "id_cliente ` set (clean_clientes rt now df)
        = id_cliente ` set (clientes_remover_duplicatas rt df)"
    by (simp add: clean_clientes_map image_image)
  then show ?thesis by (simp add: clientes_remover_duplicatas_ids [OF assms])
qed

lemma produtos_remover_duplicatas_distinct:
  "distinct (map f df) \<Longrightarrow> distinct (map f (produtos_remover_duplicatas df))"
  by (simp add: produtos_remover_duplicatas_def Let_def drop_duplicates_def select_rows_distinct)

lemma produtos_remover_duplicatas_set: "set (produtos_remover_duplicatas df) = set df"
  using drop_duplicates_keys [of "\<lambda>r. r" df]
  by (simp add: produtos_remover_duplicatas_def Let_def)

lemma clean_produtos_ids: "id_produto ` set (clean_produtos rt df) = id_produto ` set df"
  by (simp add: clean_produtos_map image_image produtos_remover_duplicatas_set)

lemma clean_produtos_distinct:
  "distinct (map id_produto df) \<Longrightarrow> distinct (map id_produto (clean_produtos rt df))"
  by (simp add: clean_produtos_map comp_def produtos_remover_duplicatas_distinct)

lemma clean_vendas_distinct:
  "distinct (map id_venda df) \<Longrightarrow> distinct (map id_venda (clean_vendas rt now df dc dp))"
  by (simp add: clean_vendas_map comp_def clean_venda_row_ids distinct_map_filter)

lemma clean_logistica_distinct:
  "distinct (map id_entrega df) \<Longrightarrow> distinct (map id_entrega (clean_logistica rt df dv))"
  by (simp add: clean_logistica_map comp_def distinct_map_filter)

subsection \<open>The sorting algorithms of the examples\<close>

lemma argsort_ok_sort_key:
  assumes "\<And>ks. set (p ks) = {..<length ks}" and "\<And>ks. length (p ks) = length ks"
  shows "argsort_ok (\<lambda>ks. sort_key (\<lambda>i. ks ! i) (p ks))"
  unfolding argsort_ok_def by (simp add: assms)

lemma argsort_ok_1: "argsort_ok argsort_1"
proof -
  have "argsort_ok (\<lambda>ks::timestamp list. sort_key (\<lambda>i. ks ! i) [0..<length ks])"
    by (rule argsort_ok_sort_key) (simp_all add: lessThan_atLeast0)
  then show ?thesis by (simp add: argsort_1_def [abs_def])
qed

lemma argsort_ok_2: "argsort_ok argsort_2"
proof -
  have "argsort_ok (\<lambda>ks::timestamp list. sort_key (\<lambda>i. ks ! i) (rotate 10 [0..<length ks]))"
    by (rule argsort_ok_sort_key) (simp_all add: lessThan_atLeast0)
  then show ?thesis by (simp add: argsort_2_def [abs_def])
qed

lemma argsort_ok_runtime_1: "argsort_ok (argsort runtime_1)"
  by (simp add: runtime_1_fields argsort_ok_1)

lemma argsort_ok_runtime_2: "argsort_ok (argsort runtime_2)"
  by (simp add: runtime_2_fields argsort_ok_2)
subsection \<open>Stripping\<close>

lemma rstrip_empty: "rstrip rt s = [] \<longleftrightarrow> (\<forall>c \<in> set s. is_space rt c)"
  by (simp add: rstrip_def dropWhile_eq_Nil_conv)

lemma dropWhile_all: "(\<forall>c \<in> set (dropWhile P s). P c) \<longleftrightarrow> dropWhile P s = []"
proof
  assume a: "\<forall>c \<in> set (dropWhile P s). P c"
  show "dropWhile P s = []"
  proof (rule ccontr)
    assume n: "dropWhile P s \<noteq> []"
    then have "\<not> P (hd (dropWhile P s))" by (rule hd_dropWhile)
    moreover have "hd (dropWhile P s) \<in> set (dropWhile P s)"
      using n by (rule hd_in_set)
    ultimately show False using a by blast
  qed
next
  assume e: "dropWhile P s = []"
  show "\<forall>c \<in> set (dropWhile P s). P c" unfolding e by simp
qed

lemma strip_empty: "strip rt s = [] \<longleftrightarrow> (\<forall>c \<in> set s. is_space rt c)"
  using dropWhile_all [of "is_space rt" s]
  by (simp add: strip_def rstrip_empty lstrip_def)

lemma blank_strip: "(n = None \<or> map_option (strip rt) n = Some []) \<longleftrightarrow> blank rt n"
  by (cases n) (simp_all add: blank_def strip_empty list_all_iff)

subsection \<open>ASCII code points\<close>













subsection \<open>Stripping ASCII text\<close>












subsection \<open>Title case of ASCII text\<close>







subsection \<open>The string methods of a runtime on ASCII text\<close>


lemma ascii_text_Nil: "ascii_text []"
  by (simp add: ascii_text_def)


















subsection \<open>Cleaning a clean customer row\<close>







subsection \<open>The surviving row of an identifier\<close>

lemma filter_distinct_key:
  "distinct (map f xs) \<Longrightarrow> s \<in> set xs \<Longrightarrow> filter (\<lambda>r. f r = f s) xs = [s]"
proof (induction xs)
  case Nil
  then show ?case by simp
next
  case (Cons x xs)
  show ?case
  proof (cases "s = x")
    case True
    have "filter (\<lambda>r. f r = f x) xs = []"
      using Cons.prems(1) by (auto simp: filter_empty_conv image_iff)
    with True show ?thesis by simp
  next
    case False
    then have "s \<in> set xs" using Cons.prems(2) by simp
    moreover have "f x \<noteq> f s" using Cons.prems(1) \<open>s \<in> set xs\<close> by auto
    ultimately show ?thesis using Cons by simp
  qed
qed

lemma clientes_remover_duplicatas_survivor:
  assumes ok: "argsort_ok (argsort rt)" and k: "k \<in> id_cliente ` set df"
  shows "\<exists>s \<in> set df. id_cliente s = k
           \<and> (\<forall>x \<in> set df. id_cliente x = k
                 \<longrightarrow> \<not> later (registration rt x) (registration rt s))
           \<and> filter (\<lambda>r. id_cliente r = k) (clientes_remover_duplicatas rt df)
               = [if distinct (map id_cliente df) then s
                  else s\<lparr>data_cadastro := to_datetime rt (data_cadastro s)\<rparr>]"
proof (cases "distinct (map id_cliente df)")
  case True
  obtain s where s: "s \<in> set df" "id_cliente s = k" using k by auto
  have f: "filter (\<lambda>r. id_cliente r = k) df = [s]"
    using filter_distinct_key [OF True s(1)] s(2) by simp
  have "\<forall>x \<in> set df. id_cliente x = k \<longrightarrow> \<not> later (registration rt x) (registration rt s)"
  proof (intro ballI impI)
    fix x assume "x \<in> set df" "id_cliente x = k"
    then have "x \<in> set (filter (\<lambda>r. id_cliente r = k) df)" by simp
    then have "x = s" unfolding f by simp
    then show "\<not> later (registration rt x) (registration rt s)" by (simp add: later_irrefl)
  qed
  moreover have "filter (\<lambda>r. id_cliente r = k) (clientes_remover_duplicatas rt df) = [s]"
    using True f by (simp add: clientes_remover_duplicatas_same)
  ultimately show ?thesis using s True by auto
next
  case False
  let ?conv = "\<lambda>r. r\<lparr>data_cadastro := to_datetime rt (data_cadastro r)\<rparr>"
  let ?key = "\<lambda>r. stamp_of (data_cadastro r)"
  let ?D = "sort_values_desc (argsort rt) ?key (map ?conv df)"
  let ?F = "filter (\<lambda>r. id_cliente r = k) ?D"
  have d: "clientes_remover_duplicatas rt df = drop_duplicates id_cliente ?D"
    using False by (simp add: clientes_remover_duplicatas_def Let_def no_duplicates)
  have setD: "set ?D = ?conv ` set df"
    using sort_values_desc_set [OF ok, of ?key "map ?conv df"] by simp
  have "sorted_wrt (\<lambda>a b. \<not> later (?key b) (?key a)) ?D"
    using ok by (rule sort_values_desc_sorted)
  then have sF: "sorted_wrt (\<lambda>a b. \<not> later (?key b) (?key a)) ?F"
    by (rule sorted_wrt_filter)
  have inF: "\<And>x. x \<in> set df \<Longrightarrow> id_cliente x = k \<Longrightarrow> ?conv x \<in> set ?F"
  proof -
    fix x assume "x \<in> set df" "id_cliente x = k"
    then have "?conv x \<in> set ?D" "id_cliente (?conv x) = k" unfolding setD by simp_all
    then show "?conv x \<in> set ?F" by simp
  qed
  obtain x0 where "x0 \<in> set df" "id_cliente x0 = k" using k by auto
  then have "?conv x0 \<in> set ?F" by (rule inF)
  then obtain h t where F: "?F = h # t" by (cases ?F) auto
  have "h \<in> set ?F" unfolding F by simp
  then have "h \<in> set ?D" "id_cliente h = k" by simp_all
  then obtain s where s: "s \<in> set df" "h = ?conv s" unfolding setD by auto
  have sk: "id_cliente s = k" using \<open>id_cliente h = k\<close> s(2) by simp
  have reg: "\<And>x. ?key (?conv x) = registration rt x"
    by (simp add: registration_def)
  have "\<forall>x \<in> set df. id_cliente x = k \<longrightarrow> \<not> later (registration rt x) (registration rt s)"
  proof (intro ballI impI)
    fix x assume "x \<in> set df" "id_cliente x = k"
    then have "?conv x \<in> set (h # t)" using inF F by simp
    then have "\<not> later (?key (?conv x)) (?key h)"
      using sF unfolding F by (auto simp: later_irrefl)
    then show "\<not> later (registration rt x) (registration rt s)"
      unfolding s(2) reg .
  qed
  moreover have "filter (\<lambda>r. id_cliente r = k) (clientes_remover_duplicatas rt df) = [?conv s]"
    unfolding d drop_duplicates_filter F s(2) by simp
  ultimately show ?thesis using s(1) sk False by auto
qed

lemma clean_cliente_row_fields:
  "data_cadastro (clean_cliente_row rt now r) = data_cadastro r"
  "nome (clean_cliente_row rt now r)
     = (if blank rt (nome r) then Some (u ''Cliente '' @ str_int (id_cliente r)) else nome r)"
  unfolding clean_cliente_row_def fill_nome_def blank_strip by simp_all

lemma clean_clientes_survivor:
  assumes ok: "argsort_ok (argsort rt)" and k: "k \<in> id_cliente ` set df"
  shows "\<exists>s \<in> set df. id_cliente s = k
           \<and> (\<forall>x \<in> set df. id_cliente x = k
                 \<longrightarrow> \<not> later (registration rt x) (registration rt s))
           \<and> (\<exists>r. filter (\<lambda>r. id_cliente r = k) (clean_clientes rt now df) = [r]
                 \<and> r = clean_cliente_row rt now
                         (if distinct (map id_cliente df) then s
                          else s\<lparr>data_cadastro := to_datetime rt (data_cadastro s)\<rparr>)
                 \<and> id_cliente r = k
                 \<and> data_cadastro r = (if distinct (map id_cliente df) then data_cadastro s
                                        else to_datetime rt (data_cadastro s))
                 \<and> nome r = (if blank rt (nome s) then Some (u ''Cliente '' @ str_int k)
                              else nome s))"
proof -
  obtain s where s: "s \<in> set df" "id_cliente s = k"
    "\<forall>x \<in> set df. id_cliente x = k \<longrightarrow> \<not> later (registration rt x) (registration rt s)"
    "filter (\<lambda>r. id_cliente r = k) (clientes_remover_duplicatas rt df)
       = [if distinct (map id_cliente df) then s
          else s\<lparr>data_cadastro := to_datetime rt (data_cadastro s)\<rparr>]"
    using clientes_remover_duplicatas_survivor [OF ok k] by blast
  let ?s' = "if distinct (map id_cliente df) then s
             else s\<lparr>data_cadastro := to_datetime rt (data_cadastro s)\<rparr>"
  have "filter (\<lambda>r. id_cliente r = k) (clean_clientes rt now df) = [clean_cliente_row rt now ?s']"
    using s(4) by (simp add: clean_clientes_map filter_map comp_def)
  moreover have "id_cliente (clean_cliente_row rt now ?s') = k"
    using s(2) by simp
  moreover have "data_cadastro (clean_cliente_row rt now ?s')
                   = (if distinct (map id_cliente df) then data_cadastro s
                      else to_datetime rt (data_cadastro s))"
    by (simp add: clean_cliente_row_fields)
  moreover have "nome (clean_cliente_row rt now ?s')
                   = (if blank rt (nome s) then Some (u ''Cliente '' @ str_int k) else nome s)"
    using s(2) by (simp add: clean_cliente_row_fields)
  ultimately show ?thesis using s(1,2,3) by blast
qed

lemma scenario_clean:
  assumes ok: "argsort_ok (argsort rt)"
    and p1: "parse_datetime rt (u ''2023-01-01'') = Some (2023, 1, 1, 0)"
    and p2: "parse_datetime rt (u ''2024-06-01'') = Some (2024, 6, 1, 0)"
  shows "map (\<lambda>r. (id_cliente r, data_cadastro r, nome r))
           (clean_clientes rt now scenario_clientes)
         = [(1, Stamp (2024, 6, 1, 0), Some (u ''Cliente 1''))]"
proof -
  let ?r1 = "cliente_1\<lparr>data_cadastro := Text (u ''2023-01-01'')\<rparr>"
  let ?r2 = "cliente_1\<lparr>data_cadastro := Text (u ''2024-06-01''), nome := Some []\<rparr>"
  have ids: "map id_cliente scenario_clientes = [1, 1]"
    by (simp add: scenario_clientes_def cliente_1_def)
  have ids': "id_cliente ` set scenario_clientes = {1}"
    using arg_cong [OF ids, of set] by simp
  then have k: "1 \<in> id_cliente ` set scenario_clientes"
    by simp
  have nd: "\<not> distinct (map id_cliente scenario_clientes)"
    unfolding ids by simp
  have reg: "registration rt ?r1 = Some (2023, 1, 1, 0)" "registration rt ?r2 = Some (2024, 6, 1, 0)"
    by (simp_all add: registration_def to_datetime_def stamp_of_def p1 p2)
  have l: "later (registration rt ?r2) (registration rt ?r1)"
    unfolding reg by (simp add: later_def less_prod_def)
  obtain s r where s: "s \<in> set scenario_clientes"
    and latest: "\<forall>x \<in> set scenario_clientes. id_cliente x = 1
                   \<longrightarrow> \<not> later (registration rt x) (registration rt s)"
    and f: "filter (\<lambda>r. id_cliente r = 1) (clean_clientes rt now scenario_clientes) = [r]"
    and d: "data_cadastro r = (if distinct (map id_cliente scenario_clientes) then data_cadastro s
                               else to_datetime rt (data_cadastro s))"
    and n: "nome r = (if blank rt (nome s) then Some (u ''Cliente '' @ str_int 1) else nome s)"
    and i: "id_cliente r = 1"
    using clean_clientes_survivor [OF ok k, of now] by blast
  have "s \<noteq> ?r1"
  proof
    assume "s = ?r1"
    moreover have "?r2 \<in> set scenario_clientes" "id_cliente ?r2 = 1"
      by (simp_all add: scenario_clientes_def cliente_1_def)
    ultimately have "\<not> later (registration rt ?r2) (registration rt ?r1)"
      using latest by blast
    with l show False by blast
  qed
  then have s2: "s = ?r2" using s by (simp add: scenario_clientes_def)
  have "id_cliente ` set (clean_clientes rt now scenario_clientes) = {1}"
    using clean_clientes_ids [OF ok, of now scenario_clientes] ids' by simp
  then have "filter (\<lambda>r. id_cliente r = 1) (clean_clientes rt now scenario_clientes)
               = clean_clientes rt now scenario_clientes"
    by (auto simp: filter_id_conv)
  then have c: "clean_clientes rt now scenario_clientes = [r]" using f by simp
  have "data_cadastro r = Stamp (2024, 6, 1, 0)"
    using d nd unfolding s2 by (simp add: to_datetime_def p2)
  moreover have "nome r = Some (u ''Cliente 1'')"
    using n unfolding s2 by (simp add: blank_def str_int_def u_def)
  ultimately show ?thesis using c i by simp
qed
subsection \<open>The examples\<close>

lemmas venda_eval = clean_venda_row_def Let_def validar_data_row_def recalcular_total_row_def
  corrigir_quantidade_row_def inconsistent_row_def valor_total_calculado_def
  venda_1_def now_1_def to_datetime_def less_prod_def fle_def flt_def fmul_def fsub_def
  fabs_def tolerance_def runtime_1_fields

lemmas invariant_eval = total_invariant_def venda_1_def runtime_1_fields fmul_def fsub_def
  fabs_def fle_def tolerance_def

lemma venda_1_row:
  "clean_venda_row runtime_1 now_1 venda_1 = venda_1\<lparr>valor_total := Finite 10\<rparr>"
proof -
  have r: "round_1 (9 - 10) = Finite (- 1)" "round_1 (5 * 2) = Finite 10"
    by (simp_all add: round_1_exact)
  show ?thesis
    using status_Pendente r by (simp add: venda_eval)
qed

lemma venda_1_clean:
  "clean_vendas runtime_1 now_1 [venda_1] [cliente_1] [produto_1]
     = [venda_1\<lparr>valor_total := Finite 10\<rparr>]"
  by (simp add: clean_vendas_map venda_1_row) (simp add: venda_1_def cliente_1_def produto_1_def)

lemma venda_2_row:
  "clean_venda_row runtime_1 now_1 (venda_1\<lparr>id_venda := 2, valor_total := Finite (1281 / 128)\<rparr>)
     = venda_1\<lparr>id_venda := 2, valor_total := Finite (1281 / 128)\<rparr>"
proof -
  have r: "round_1 (1281 / 128 - 10) = Finite (1 / 128)" "round_1 (5 * 2) = Finite 10"
    by (simp_all add: round_1_exact)
  show ?thesis
    using status_Pendente r by (simp add: venda_eval)
qed

lemma venda_nan_total_row:
  "clean_venda_row runtime_1 now_1 (venda_1\<lparr>valor_total := NaN\<rparr>)
     = venda_1\<lparr>valor_total := NaN\<rparr>"
proof -
  have r: "round_1 (5 * 2) = Finite 10"
    by (simp add: round_1_exact)
  show ?thesis
    using status_Pendente r by (simp add: venda_eval)
qed

lemma venda_nan_quantity_row:
  "clean_venda_row runtime_1 now_1 (venda_1\<lparr>quantidade := NaN\<rparr>)
     = venda_1\<lparr>quantidade := NaN\<rparr>"
  using status_Pendente by (simp add: venda_eval)

lemma round_1_overflow: "round_1 (10 * 2 ^ 1021) = PosInf"
  by (simp add: round_1_def overflow_threshold_def)

lemma venda_overflow_row:
  "clean_venda_row runtime_1 now_1
       (venda_1\<lparr>quantidade := Finite 10, valor_unitario := Finite (2 ^ 1021)\<rparr>)
     = venda_1\<lparr>quantidade := Finite 10, valor_unitario := Finite (2 ^ 1021),
                valor_total := PosInf\<rparr>"
  using status_Pendente round_1_overflow by (simp add: venda_eval)

lemma venda_1_refs:
  "venda_id_cliente venda_1 \<in> id_cliente ` set [cliente_1]"
  "venda_id_produto venda_1 \<in> id_produto ` set [produto_1]"
  by (simp_all add: venda_1_def cliente_1_def produto_1_def)

lemma clean_vendas_single:
  assumes "venda_id_cliente v = 1" and "venda_id_produto v = 1"
  shows "clean_vendas rt now [v] [cliente_1] [produto_1] = [clean_venda_row rt now v]"
  using assms by (simp add: clean_vendas_map cliente_1_def produto_1_def)


lemma cliente_limpo_clean:
  "clean_clientes runtime_1 now_2 [cliente_limpo] = [cliente_limpo]"
  by code_simp

lemma scenario_parse:
  "parse_datetime runtime_1 (u ''2023-01-01'') = Some (2023, 1, 1, 0)"
  "parse_datetime runtime_1 (u ''2024-06-01'') = Some (2024, 6, 1, 0)"
  by (simp_all add: runtime_1_fields parse_scenario_def u_def)

lemma mixed_clean:
  "map (\<lambda>r. (id_cliente r, data_cadastro r, nome r))
     (clean_clientes runtime_1 now_1 mixed_clientes)
   = [(1, Stamp (2024, 3, 1, 0), Some (u ''Cliente 1'')),
      (2, Stamp (2023, 1, 1, 0), Some (u ''Cliente 2''))]"
  by code_simp


section \<open>Claims about the cleaner\<close>

subsection \<open>The total of a sale\<close>

text \<open>
  Claim C5.  Let the rounding of the machine never give \<^verbatim>\<open>NaN\<close> and give zero for zero.
  For every raw sales frame and all upstream frames, every row of the cleaned sales frame
  whose quantity, unit price and total are numbers (none of them missing or infinite)
  satisfies \<open>|total - quantity * unit_price| \<le> 0.01\<close>, where the product, the difference
  and the comparison are those of doubles, as the cleaner evaluates them.  (A row with a
  missing quantity, unit price or total is not recomputed, because the comparison of a
  missing difference with the tolerance is false; and a product that overflows is written
  to the total as an infinity.)
\<close>

theorem clean_vendas_total_invariant:
  assumes "round_ok rt"
  shows "\<forall>v \<in> set (clean_vendas rt now df df_clientes df_produtos).
           is_finite (quantidade v) \<and> is_finite (valor_unitario v) \<and> is_finite (valor_total v)
           \<longrightarrow> total_invariant rt v"
proof
  fix r assume "r \<in> set (clean_vendas rt now df df_clientes df_produtos)"
  then obtain v where r: "r = clean_venda_row rt now v"
    by (auto simp: clean_vendas_map)
  show "is_finite (quantidade r) \<and> is_finite (valor_unitario r) \<and> is_finite (valor_total r)
          \<longrightarrow> total_invariant rt r"
    unfolding r using clean_venda_row_total [OF assms, of now v] by blast
qed

text \<open>The scenario row, whose total 9.00 is recomputed to 10.00, and a row whose total
  10.0078125 is within the tolerance and stays: both satisfy the invariant.\<close>

theorem clean_vendas_total_invariant_witness:
  "round_ok runtime_1
   \<and> clean_vendas runtime_1 now_1
       [venda_1, venda_1\<lparr>id_venda := 2, valor_total := Finite (1281 / 128)\<rparr>]
       [cliente_1] [produto_1]
     = [venda_1\<lparr>valor_total := Finite 10\<rparr>,
        venda_1\<lparr>id_venda := 2, valor_total := Finite (1281 / 128)\<rparr>]
   \<and> total_invariant runtime_1 (venda_1\<lparr>valor_total := Finite 10\<rparr>)
   \<and> total_invariant runtime_1 (venda_1\<lparr>id_venda := 2, valor_total := Finite (1281 / 128)\<rparr>)"
proof -
  let ?df = "[venda_1, venda_1\<lparr>id_venda := 2, valor_total := Finite (1281 / 128)\<rparr>]"
  have c: "clean_vendas runtime_1 now_1 ?df [cliente_1] [produto_1]
             = [venda_1\<lparr>valor_total := Finite 10\<rparr>,
                venda_1\<lparr>id_venda := 2, valor_total := Finite (1281 / 128)\<rparr>]"
    by (simp add: clean_vendas_map venda_1_row venda_2_row)
      (simp add: venda_1_def cliente_1_def produto_1_def)
  have f: "is_finite (quantidade venda_1)" "is_finite (valor_unitario venda_1)"
    by (simp_all add: venda_1_def is_finite_def)
  have "total_invariant runtime_1 (venda_1\<lparr>valor_total := Finite 10\<rparr>)
        \<and> total_invariant runtime_1 (venda_1\<lparr>id_venda := 2, valor_total := Finite (1281 / 128)\<rparr>)"
    using clean_vendas_total_invariant [OF round_ok_runtime_1, of now_1 ?df "[cliente_1]" "[produto_1]"]
      f unfolding c by (simp add: is_finite_def)
  then show ?thesis using round_ok_runtime_1 c by simp
qed

text \<open>A sale whose total is missing keeps the missing total; a sale whose quantity is
  missing keeps its total 9.00 beside the unit price 2.00; the total of ten units at the
  unit price \<^verbatim>\<open>2^1021\<close> overflows to infinity.  The invariant holds of none of the three
  cleaned rows.\<close>

theorem clean_vendas_missing_total_counterexample:
  "clean_vendas runtime_1 now_1 [venda_1\<lparr>valor_total := NaN\<rparr>] [cliente_1] [produto_1]
     = [venda_1\<lparr>valor_total := NaN\<rparr>]
   \<and> \<not> total_invariant runtime_1 (venda_1\<lparr>valor_total := NaN\<rparr>)
   \<and> clean_vendas runtime_1 now_1 [venda_1\<lparr>quantidade := NaN\<rparr>] [cliente_1] [produto_1]
     = [venda_1\<lparr>quantidade := NaN\<rparr>]
   \<and> \<not> total_invariant runtime_1 (venda_1\<lparr>quantidade := NaN\<rparr>)
   \<and> clean_vendas runtime_1 now_1
       [venda_1\<lparr>quantidade := Finite 10, valor_unitario := Finite (2 ^ 1021)\<rparr>]
       [cliente_1] [produto_1]
     = [venda_1\<lparr>quantidade := Finite 10, valor_unitario := Finite (2 ^ 1021),
                 valor_total := PosInf\<rparr>]
   \<and> \<not> total_invariant runtime_1
         (venda_1\<lparr>quantidade := Finite 10, valor_unitario := Finite (2 ^ 1021),
                   valor_total := PosInf\<rparr>)"
proof -
  have i: "venda_id_cliente venda_1 = 1" "venda_id_produto venda_1 = 1"
    by (simp_all add: venda_1_def)
  have 1: "clean_vendas runtime_1 now_1 [venda_1\<lparr>valor_total := NaN\<rparr>] [cliente_1] [produto_1]
             = [venda_1\<lparr>valor_total := NaN\<rparr>]"
    using i by (simp add: clean_vendas_single venda_nan_total_row)
  have 2: "clean_vendas runtime_1 now_1 [venda_1\<lparr>quantidade := NaN\<rparr>] [cliente_1] [produto_1]
             = [venda_1\<lparr>quantidade := NaN\<rparr>]"
    using i by (simp add: clean_vendas_single venda_nan_quantity_row)
  have 3: "clean_vendas runtime_1 now_1
             [venda_1\<lparr>quantidade := Finite 10, valor_unitario := Finite (2 ^ 1021)\<rparr>]
             [cliente_1] [produto_1]
           = [venda_1\<lparr>quantidade := Finite 10, valor_unitario := Finite (2 ^ 1021),
                       valor_total := PosInf\<rparr>]"
  proof -
    have "clean_vendas runtime_1 now_1
            [venda_1\<lparr>quantidade := Finite 10, valor_unitario := Finite (2 ^ 1021)\<rparr>]
            [cliente_1] [produto_1]
          = [clean_venda_row runtime_1 now_1
               (venda_1\<lparr>quantidade := Finite 10, valor_unitario := Finite (2 ^ 1021)\<rparr>)]"
      by (rule clean_vendas_single) (simp_all add: i)
    then show ?thesis by (simp only: venda_overflow_row)
  qed
  have 4: "\<not> total_invariant runtime_1 (venda_1\<lparr>valor_total := NaN\<rparr>)"
    by (simp add: invariant_eval)
  have 5: "\<not> total_invariant runtime_1 (venda_1\<lparr>quantidade := NaN\<rparr>)"
    by (simp add: invariant_eval)
  have 6: "\<not> total_invariant runtime_1
         (venda_1\<lparr>quantidade := Finite 10, valor_unitario := Finite (2 ^ 1021),
                   valor_total := PosInf\<rparr>)"
    using round_1_overflow by (simp add: invariant_eval)
  from 1 2 3 4 5 6 show ?thesis by blast
qed

subsection \<open>The correction log\<close>

text \<open>
  Claim C2.  Cleaning the sales row with quantity 5, unit price 2.00 and total 9.00
  corrects the total to 10.00, and the correction log of the cleaner is as empty after
  the call as it was before: no record is appended for the field.
\<close>

theorem clean_vendas_appends_no_correction:
  "DataCleaner_clean_vendas runtime_1 now_1 [venda_1] [cliente_1] [produto_1] DataCleaner_init
     = ([venda_1\<lparr>valor_total := Finite 10\<rparr>], DataCleaner_init)
   \<and> valor_total venda_1 = Finite 9
   \<and> corrections_log DataCleaner_init = []"
proof -
  have "valor_total venda_1 = Finite 9" by (simp add: venda_1_def)
  then show ?thesis
    by (simp add: DataCleaner_clean_vendas_def venda_1_clean DataCleaner_init_def)
qed

subsection \<open>Referential integrity\<close>

text \<open>
  Claim C3.  For every output of \<^verbatim>\<open>clean_all\<close> on any four raw frames, every cleaned
  sales row has a customer identifier among the identifiers of the cleaned customers and
  a product identifier among those of the cleaned products, and every cleaned delivery
  row has a sale identifier among the identifiers of the cleaned sales.
\<close>

theorem clean_all_referential_integrity:
  assumes "out = clean_all rt now clientes_df produtos_df vendas_df logistica_df"
  shows "(\<forall>v \<in> set (vendas out).
            venda_id_cliente v \<in> id_cliente ` set (clientes out)
            \<and> venda_id_produto v \<in> id_produto ` set (produtos out))
       \<and> (\<forall>e \<in> set (logistica out). entrega_id_venda e \<in> id_venda ` set (vendas out))"
  unfolding assms clean_all_def Let_def
  by (auto simp: clean_vendas_map [of rt now vendas_df] clean_logistica_map clean_venda_row_ids)

text \<open>Three sales, one with an unknown customer and one with an unknown product, and two
  deliveries, one of a sale that is dropped: one sale and one delivery are left.\<close>

theorem clean_all_referential_integrity_witness:
  "map id_venda (vendas (clean_all runtime_1 now_1 [cliente_1] [produto_1]
       [venda_1, venda_1\<lparr>id_venda := 2, venda_id_cliente := 7\<rparr>,
        venda_1\<lparr>id_venda := 3, venda_id_produto := 8\<rparr>]
       [entrega_1, entrega_1\<lparr>id_entrega := 2, entrega_id_venda := 2\<rparr>])) = [1]
   \<and> map id_entrega (logistica (clean_all runtime_1 now_1 [cliente_1] [produto_1]
       [venda_1, venda_1\<lparr>id_venda := 2, venda_id_cliente := 7\<rparr>,
        venda_1\<lparr>id_venda := 3, venda_id_produto := 8\<rparr>]
       [entrega_1, entrega_1\<lparr>id_entrega := 2, entrega_id_venda := 2\<rparr>])) = [1]
   \<and> list_all (\<lambda>v. venda_id_cliente v \<in> {1} \<and> venda_id_produto v \<in> {1})
       (vendas (clean_all runtime_1 now_1 [cliente_1] [produto_1]
       [venda_1, venda_1\<lparr>id_venda := 2, venda_id_cliente := 7\<rparr>,
        venda_1\<lparr>id_venda := 3, venda_id_produto := 8\<rparr>]
       [entrega_1, entrega_1\<lparr>id_entrega := 2, entrega_id_venda := 2\<rparr>]))"
proof -
  let ?sales = "[venda_1, venda_1\<lparr>id_venda := 2, venda_id_cliente := 7\<rparr>,
        venda_1\<lparr>id_venda := 3, venda_id_produto := 8\<rparr>]"
  let ?ships = "[entrega_1, entrega_1\<lparr>id_entrega := 2, entrega_id_venda := 2\<rparr>]"
  let ?out = "clean_all runtime_1 now_1 [cliente_1] [produto_1] ?sales ?ships"
  let ?V = "clean_vendas runtime_1 now_1 ?sales (clean_clientes runtime_1 now_1 [cliente_1])
              (clean_produtos runtime_1 [produto_1])"
  have V: "vendas ?out = ?V" and L: "logistica ?out = clean_logistica runtime_1 ?ships ?V"
    by (simp_all add: clean_all_def Let_def)
  have c: "id_cliente ` set (clientes ?out) = {1}"
    by (simp add: clean_all_def Let_def clean_clientes_ids [OF argsort_ok_runtime_1]
        cliente_1_def)
  have p: "id_produto ` set (produtos ?out) = {1}"
    by (simp add: clean_all_def Let_def clean_produtos_ids produto_1_def)
  have v: "map id_venda ?V = [1]"
    by (simp add: clean_vendas_map clean_clientes_ids [OF argsort_ok_runtime_1]
        clean_produtos_ids clean_venda_row_ids cliente_1_def produto_1_def venda_1_def)
  have vs: "id_venda ` set ?V = {1}"
    using arg_cong [OF v, of set] by simp
  have e: "map id_entrega (clean_logistica runtime_1 ?ships ?V) = [1]"
    by (simp add: clean_logistica_map vs entrega_1_def)
  show ?thesis
    using clean_all_referential_integrity [OF refl, of runtime_1 now_1 "[cliente_1]" "[produto_1]"
        ?sales ?ships] c p v e
    by (simp add: list_all_iff V L)
qed

subsection \<open>Uniqueness of identifiers\<close>

text \<open>
  Claim C4.  For every raw customer frame the cleaned customer frame has no duplicate
  \<^verbatim>\<open>id_cliente\<close>.  The cleaning of products removes only rows that are equal in every
  column, and the cleaning of sales and of deliveries removes no duplicates at all: their
  identifiers are without duplicates in the cleaned frame when they are in the raw one.
\<close>

theorem cleaned_identifiers_unique:
  "distinct (map id_cliente (clean_clientes rt now clientes_df))
   \<and> (distinct (map id_produto produtos_df)
        \<longrightarrow> distinct (map id_produto (clean_produtos rt produtos_df)))
   \<and> (distinct (map id_venda vendas_df)
        \<longrightarrow> distinct (map id_venda (clean_vendas rt now vendas_df df_clientes df_produtos)))
   \<and> (distinct (map id_entrega logistica_df)
        \<longrightarrow> distinct (map id_entrega (clean_logistica rt logistica_df df_vendas)))"
  by (simp add: clean_clientes_distinct clean_produtos_distinct clean_vendas_distinct
      clean_logistica_distinct)

text \<open>Two customer rows with identifier 1 leave one row; two products, two sales and two
  deliveries with the identifiers 1 and 2 all stay.\<close>

theorem cleaned_identifiers_unique_witness:
  "map id_cliente (clean_clientes runtime_1 now_1
       [cliente_1, cliente_1\<lparr>data_cadastro := Stamp (2024, 6, 1, 0), nome := Some []\<rparr>]) = [1]
   \<and> distinct (map id_produto [produto_1, produto_1\<lparr>id_produto := 2\<rparr>])
   \<and> map id_produto (clean_produtos runtime_1 [produto_1, produto_1\<lparr>id_produto := 2\<rparr>])
       = [1, 2]
   \<and> distinct (map id_venda [venda_1, venda_1\<lparr>id_venda := 2\<rparr>])
   \<and> map id_venda (clean_vendas runtime_1 now_1 [venda_1, venda_1\<lparr>id_venda := 2\<rparr>]
          [cliente_1] [produto_1]) = [1, 2]
   \<and> distinct (map id_entrega [entrega_1, entrega_1\<lparr>id_entrega := 2\<rparr>])
   \<and> map id_entrega (clean_logistica runtime_1 [entrega_1, entrega_1\<lparr>id_entrega := 2\<rparr>]
          [venda_1]) = [1, 2]"
proof -
  let ?dc = "[cliente_1, cliente_1\<lparr>data_cadastro := Stamp (2024, 6, 1, 0), nome := Some []\<rparr>]"
  let ?dp = "[produto_1, produto_1\<lparr>id_produto := 2\<rparr>]"
  let ?dv = "[venda_1, venda_1\<lparr>id_venda := 2\<rparr>]"
  let ?de = "[entrega_1, entrega_1\<lparr>id_entrega := 2\<rparr>]"
  have c: "map id_cliente (clean_clientes runtime_1 now_1 ?dc) = [1]"
    by code_simp
  have p0: "distinct (map id_produto ?dp)" by (simp add: produto_1_def)
  have v0: "distinct (map id_venda ?dv)" by (simp add: venda_1_def)
  have e0: "distinct (map id_entrega ?de)" by (simp add: entrega_1_def)
  have "produtos_remover_duplicatas ?dp = ?dp"
    by (simp add: produtos_remover_duplicatas_def Let_def duplicated_def mask_sum_def
        produto_1_def)
  then have p: "map id_produto (clean_produtos runtime_1 ?dp) = [1, 2]"
    by (simp add: clean_produtos_map produto_1_def)
  have v: "map id_venda (clean_vendas runtime_1 now_1 ?dv [cliente_1] [produto_1]) = [1, 2]"
    by (simp add: clean_vendas_map clean_venda_row_ids venda_1_def cliente_1_def produto_1_def)
  have e: "map id_entrega (clean_logistica runtime_1 ?de [venda_1]) = [1, 2]"
    by (simp add: clean_logistica_map entrega_1_def venda_1_def)
  show ?thesis
    using cleaned_identifiers_unique [of runtime_1 now_1 ?dc ?dp ?dv "[cliente_1]" "[produto_1]"
        ?de "[venda_1]"] c p0 p v0 v e0 e
    by simp
qed

text \<open>Two products with one identifier and different names, two sales with one
  identifier, and two deliveries with one identifier all stay in the cleaned frames.\<close>

theorem duplicate_identifiers_counterexample:
  "\<not> distinct (map id_produto (clean_produtos runtime_1
        [produto_1, produto_1\<lparr>nome_produto := Some (u ''Mouse'')\<rparr>]))
   \<and> \<not> distinct (map id_venda (clean_vendas runtime_1 now_1
        [venda_1, venda_1\<lparr>quantidade := Finite 3\<rparr>] [cliente_1] [produto_1]))
   \<and> \<not> distinct (map id_entrega (clean_logistica runtime_1
        [entrega_1, entrega_1\<lparr>transportadora := Some (u ''Jadlog'')\<rparr>] [venda_1]))"
proof -
  have "produtos_remover_duplicatas [produto_1, produto_1\<lparr>nome_produto := Some (u ''Mouse'')\<rparr>]
        = [produto_1, produto_1\<lparr>nome_produto := Some (u ''Mouse'')\<rparr>]"
    by (simp add: produtos_remover_duplicatas_def Let_def duplicated_def mask_sum_def
        produto_1_def u_def)
  then have "\<not> distinct (map id_produto (clean_produtos runtime_1
        [produto_1, produto_1\<lparr>nome_produto := Some (u ''Mouse'')\<rparr>]))"
    by (simp add: clean_produtos_map)
  moreover have "\<not> distinct (map id_venda (clean_vendas runtime_1 now_1
        [venda_1, venda_1\<lparr>quantidade := Finite 3\<rparr>] [cliente_1] [produto_1]))"
    by (simp add: clean_vendas_map clean_venda_row_ids venda_1_def cliente_1_def produto_1_def)
  moreover have "\<not> distinct (map id_entrega (clean_logistica runtime_1
        [entrega_1, entrega_1\<lparr>transportadora := Some (u ''Jadlog'')\<rparr>] [venda_1]))"
    by (simp add: clean_logistica_map entrega_1_def venda_1_def)
  ultimately show ?thesis by simp
qed

subsection \<open>The active flag of a product\<close>

lemma padronizar_ativo_as_specified: "ativo_as_specified rt v (padronizar_ativo rt v)"
  by (simp add: ativo_as_specified_def padronizar_ativo_def Let_def u_def)

text \<open>
  Claim C10.  The rows of the cleaned product frame are, in their order, the rows that
  the removal of duplicates leaves, and in each of them the active flag is true exactly
  when the text of the original value is \<^verbatim>\<open>true\<close> in lower case, false exactly when it
  is \<^verbatim>\<open>false\<close>, and missing for every other original value.
\<close>

theorem clean_produtos_ativo:
  "list_all2 (\<lambda>r c. id_produto c = id_produto r \<and> ativo_as_specified rt (ativo r) (ativo c))
     (produtos_remover_duplicatas df) (clean_produtos rt df)"
  by (simp add: clean_produtos_map list_all2_map2 list_all2_same padronizar_ativo_as_specified)
    (simp add: clean_produto_row_def padronizar_ativo_as_specified)

text \<open>The values \<^verbatim>\<open>yes\<close>, \<^verbatim>\<open>1\<close> and the empty text give a missing flag; \<^verbatim>\<open>TRUE\<close> and
  the boolean \<^verbatim>\<open>False\<close> give true and false.\<close>

theorem clean_produtos_ativo_witness:
  "map ativo (clean_produtos runtime_1
     [produto_1\<lparr>ativo := PStr (u ''yes'')\<rparr>, produto_1\<lparr>ativo := PStr (u ''1'')\<rparr>,
      produto_1\<lparr>ativo := PStr []\<rparr>, produto_1\<lparr>ativo := PStr (u ''TRUE'')\<rparr>,
      produto_1\<lparr>ativo := PBool False\<rparr>])
   = [PNone, PNone, PNone, PBool True, PBool False]"
proof -
  let ?df = "[produto_1\<lparr>ativo := PStr (u ''yes'')\<rparr>, produto_1\<lparr>ativo := PStr (u ''1'')\<rparr>,
      produto_1\<lparr>ativo := PStr []\<rparr>, produto_1\<lparr>ativo := PStr (u ''TRUE'')\<rparr>,
      produto_1\<lparr>ativo := PBool False\<rparr>]"
  have d: "produtos_remover_duplicatas ?df = ?df"
    by (simp add: produtos_remover_duplicatas_def Let_def duplicated_def mask_sum_def
        produto_1_def u_def)
  have a: "padronizar_ativo runtime_1 (PStr (u ''yes'')) = PNone"
    "padronizar_ativo runtime_1 (PStr (u ''1'')) = PNone"
    "padronizar_ativo runtime_1 (PStr []) = PNone"
    "padronizar_ativo runtime_1 (PStr (u ''TRUE'')) = PBool True"
    "padronizar_ativo runtime_1 (PBool False) = PBool False"
    by (simp_all add: padronizar_ativo_def Let_def astype_str_def string_defs tables_1)
  show ?thesis
    using clean_produtos_ativo [of runtime_1 ?df]
    by (simp add: d clean_produtos_map clean_produto_row_def a)
qed

subsection \<open>Cleaning customers twice\<close>




subsection \<open>Duplicate customers\<close>

text \<open>
  Claim C6.  Let the sorting algorithm give a sorted list of all positions.  Where the
  date parser reads the two dates of the scenario, cleaning the customer frame with two
  rows of identifier 1, registered on 2023-01-01 and on 2024-06-01, the second with an
  empty name, leaves one row: identifier 1, registration date 2024-06-01, and the name
  \<^verbatim>\<open>Cliente 1\<close>.  In general, for every frame and every identifier \<open>k\<close> in it, exactly
  one cleaned row has identifier \<open>k\<close>; it is the cleaned form of a row \<open>s\<close> of \<open>k\<close> such
  that no row of \<open>k\<close> has a later registration date; its registration date is that of
  \<open>s\<close> (converted when the frame had duplicates), and its name is that of \<open>s\<close>, or
  \<^verbatim>\<open>Cliente\<close> and the identifier when the name of \<open>s\<close> is missing, empty or white space.
  Which of several rows with the latest date is kept is left to the sorting algorithm.
\<close>

theorem clean_clientes_keeps_latest:
  assumes "argsort_ok (argsort rt)"
  shows "(parse_datetime rt (u ''2023-01-01'') = Some (2023, 1, 1, 0)
          \<and> parse_datetime rt (u ''2024-06-01'') = Some (2024, 6, 1, 0)
          \<longrightarrow> map (\<lambda>r. (id_cliente r, data_cadastro r, nome r))
                 (clean_clientes rt now scenario_clientes)
               = [(1, Stamp (2024, 6, 1, 0), Some (u ''Cliente 1''))])
       \<and> (k \<in> id_cliente ` set df
          \<longrightarrow> (\<exists>s \<in> set df. id_cliente s = k
                 \<and> (\<forall>x \<in> set df. id_cliente x = k
                       \<longrightarrow> \<not> later (registration rt x) (registration rt s))
                 \<and> (\<exists>r. filter (\<lambda>r. id_cliente r = k) (clean_clientes rt now df) = [r]
                       \<and> r = clean_cliente_row rt now
                               (if distinct (map id_cliente df) then s
                                else s\<lparr>data_cadastro := to_datetime rt (data_cadastro s)\<rparr>)
                       \<and> id_cliente r = k
                       \<and> data_cadastro r
                           = (if distinct (map id_cliente df) then data_cadastro s
                              else to_datetime rt (data_cadastro s))
                       \<and> nome r = (if blank rt (nome s)
                                    then Some (u ''Cliente '' @ str_int k) else nome s))))"
proof (intro conjI impI)
  assume "parse_datetime rt (u ''2023-01-01'') = Some (2023, 1, 1, 0)
          \<and> parse_datetime rt (u ''2024-06-01'') = Some (2024, 6, 1, 0)"
  then show "map (\<lambda>r. (id_cliente r, data_cadastro r, nome r))
                 (clean_clientes rt now scenario_clientes)
               = [(1, Stamp (2024, 6, 1, 0), Some (u ''Cliente 1''))]"
    using scenario_clean [OF assms] by blast
next
  assume "k \<in> id_cliente ` set df"
  then show "\<exists>s \<in> set df. id_cliente s = k
                 \<and> (\<forall>x \<in> set df. id_cliente x = k
                       \<longrightarrow> \<not> later (registration rt x) (registration rt s))
                 \<and> (\<exists>r. filter (\<lambda>r. id_cliente r = k) (clean_clientes rt now df) = [r]
                       \<and> r = clean_cliente_row rt now
                               (if distinct (map id_cliente df) then s
                                else s\<lparr>data_cadastro := to_datetime rt (data_cadastro s)\<rparr>)
                       \<and> id_cliente r = k
                       \<and> data_cadastro r
                           = (if distinct (map id_cliente df) then data_cadastro s
                              else to_datetime rt (data_cadastro s))
                       \<and> nome r = (if blank rt (nome s)
                                    then Some (u ''Cliente '' @ str_int k) else nome s))"
    by (rule clean_clientes_survivor [OF assms])
qed

text \<open>The scenario, and a frame of three rows of identifier 1 among which the one
  registered last has a name of two spaces, with a row of identifier 2: the row
  registered last survives with the name \<^verbatim>\<open>Cliente 1\<close>.\<close>

theorem clean_clientes_keeps_latest_witness:
  "argsort_ok (argsort runtime_1)
   \<and> parse_datetime runtime_1 (u ''2023-01-01'') = Some (2023, 1, 1, 0)
   \<and> parse_datetime runtime_1 (u ''2024-06-01'') = Some (2024, 6, 1, 0)
   \<and> map (\<lambda>r. (id_cliente r, data_cadastro r, nome r))
       (clean_clientes runtime_1 now_1 scenario_clientes)
     = [(1, Stamp (2024, 6, 1, 0), Some (u ''Cliente 1''))]
   \<and> 1 \<in> id_cliente ` set mixed_clientes
   \<and> map (\<lambda>r. (id_cliente r, data_cadastro r, nome r))
       (clean_clientes runtime_1 now_1 mixed_clientes)
     = [(1, Stamp (2024, 3, 1, 0), Some (u ''Cliente 1'')),
        (2, Stamp (2023, 1, 1, 0), Some (u ''Cliente 2''))]"
proof -
  have k: "1 \<in> id_cliente ` set mixed_clientes"
    by (simp add: mixed_clientes_def cliente_1_def)
  have t: "(parse_datetime runtime_1 (u ''2023-01-01'') = Some (2023, 1, 1, 0)
          \<and> parse_datetime runtime_1 (u ''2024-06-01'') = Some (2024, 6, 1, 0)
          \<longrightarrow> map (\<lambda>r. (id_cliente r, data_cadastro r, nome r))
                 (clean_clientes runtime_1 now_1 scenario_clientes)
               = [(1, Stamp (2024, 6, 1, 0), Some (u ''Cliente 1''))])"
    using clean_clientes_keeps_latest [OF argsort_ok_runtime_1, of now_1 1 mixed_clientes]
    by blast
  have "map (\<lambda>r. (id_cliente r, data_cadastro r, nome r))
                 (clean_clientes runtime_1 now_1 scenario_clientes)
               = [(1, Stamp (2024, 6, 1, 0), Some (u ''Cliente 1''))]"
    using t scenario_parse by blast
  with argsort_ok_runtime_1 scenario_parse k mixed_clean show ?thesis by blast
qed

text \<open>The name of the surviving row of the scenario is \<^verbatim>\<open>Cliente 1\<close>, not
  \<^verbatim>\<open>Customer 1\<close>.  And of seventeen rows with one identifier and one registration date,
  a sorting algorithm that is not stable keeps the eighth, not the first.\<close>

theorem clean_clientes_first_occurrence_counterexample:
  "map nome (clean_clientes runtime_1 now_1 scenario_clientes) \<noteq> [Some (u ''Customer 1'')]
   \<and> argsort_ok (argsort runtime_2)
   \<and> map nome (clean_clientes runtime_2 now_1 tied_clientes) = [Some (u ''N8'')]
   \<and> map nome (clean_clientes runtime_2 now_1 tied_clientes) \<noteq> [Some (u ''N1'')]"
proof -
  have 1: "map nome (clean_clientes runtime_1 now_1 scenario_clientes)
             \<noteq> [Some (u ''Customer 1'')]"
    by code_simp
  have 2: "map nome (clean_clientes runtime_2 now_1 tied_clientes) = [Some (u ''N8'')]"
    by code_simp
  have 3: "map nome (clean_clientes runtime_2 now_1 tied_clientes) \<noteq> [Some (u ''N1'')]"
    by code_simp
  from 1 2 3 argsort_ok_runtime_2 show ?thesis by blast
qed

end
